theory Spec2Isabelle
  imports Main
begin

section \<open>Strings as the services use them\<close>

text \<open>
  Strings are byte strings (\<^typ>\<open>string\<close>).  \<open>lower\<close> is \<open>str.lower()\<close> on the ASCII
  letters, \<open>strip\<close> is \<open>str.strip()\<close> for the ASCII white space, \<open>contains sub s\<close> is
  the test \<open>sub in s\<close>, \<open>split_on c s\<close> is \<open>s.split(c)\<close> for a one-character
  separator, and \<open>str_int\<close> is the decimal rendering an f-string gives an integer.
\<close>

definition lower_char :: "char \<Rightarrow> char" where
  "lower_char c =
     (let n = (of_char c :: nat) in if 65 \<le> n \<and> n \<le> 90 then char_of (n + 32) else c)"

definition lower :: "string \<Rightarrow> string" where
  "lower s = map lower_char s"

fun startswith :: "string \<Rightarrow> string \<Rightarrow> bool" where
  "startswith [] s = True"
| "startswith (a # as) [] = False"
| "startswith (a # as) (c # cs) = (a = c \<and> startswith as cs)"

fun contains :: "string \<Rightarrow> string \<Rightarrow> bool" where
  "contains sub [] = (sub = [])"
| "contains sub (c # cs) = (startswith sub (c # cs) \<or> contains sub cs)"

definition is_space :: "char \<Rightarrow> bool" where
  "is_space c = (let n = (of_char c :: nat) in n = 32 \<or> (9 \<le> n \<and> n \<le> 13) \<or> (28 \<le> n \<and> n \<le> 31))"

definition strip :: "string \<Rightarrow> string" where
  "strip s = rev (dropWhile is_space (rev (dropWhile is_space s)))"

fun split_on :: "char \<Rightarrow> string \<Rightarrow> string list" where
  "split_on c [] = [[]]"
| "split_on c (x # xs) =
     (if x = c then [] # split_on c xs
      else (case split_on c xs of [] \<Rightarrow> [[x]] | w # ws \<Rightarrow> (x # w) # ws))"

definition digit_char :: "nat \<Rightarrow> char" where
  "digit_char d = char_of (48 + d)"

fun str_nat :: "nat \<Rightarrow> string" where
  "str_nat n = (if n < 10 then [digit_char n] else str_nat (n div 10) @ [digit_char (n mod 10)])"

declare str_nat.simps [simp del]

definition str_int :: "int \<Rightarrow> string" where
  "str_int i = (if i < 0 then CHR ''-'' # str_nat (nat (- i)) else str_nat (nat i))"

section \<open>Identity classifier\<close>

text \<open>
  \<open>VerificationService._determine_user_type\<close>: the two \<open>for\<close> loops, each returning
  \<open>2\<close> (teacher) at the first element that contains a keyword once lowered, and
  \<open>0\<close> (student) when both loops run out.
\<close>

definition teacher_affiliations :: "string list" where
  "teacher_affiliations = [''employee'', ''faculty'', ''staff'', ''teacher'']"

definition teacher_groups :: "string list" where
  "teacher_groups = [''employees'', ''staff'', ''faculty'', ''teachers'']"

definition any_keyword_in :: "string list \<Rightarrow> string \<Rightarrow> bool" where
  "any_keyword_in keywords s = list_ex (\<lambda>k. contains k (lower s)) keywords"

fun scan_groups :: "string list \<Rightarrow> int" where
  "scan_groups [] = 0"
| "scan_groups (g # gs) = (if any_keyword_in teacher_groups g then 2 else scan_groups gs)"

fun scan_affiliations :: "string list \<Rightarrow> string list \<Rightarrow> int" where
  "scan_affiliations groups [] = scan_groups groups"
| "scan_affiliations groups (a # as) =
     (if any_keyword_in teacher_affiliations a then 2 else scan_affiliations groups as)"

definition determine_user_type :: "string list \<Rightarrow> string list \<Rightarrow> int" where
  "determine_user_type groups affiliations = scan_affiliations groups affiliations"

section \<open>Data model\<close>

text \<open>
  The tables of \<open>bot/db/models.py\<close> that the verification services read and write.
  A timestamp is a number of seconds.  Columns that clash across tables carry the table
  as a prefix; the autoincrement keys and the \<open>created_at\<close> defaults are filled by the
  store and are left out.  \<open>snapshot\<close> is the JSON object kept in \<open>preserved_roles\<close>;
  either key may be missing from it.
\<close>

type_synonym time = int

record user =
  user_discord_id :: int
  user_login :: "string option"
  activity :: int
  user_type :: int
  verification :: "string option"
  real_name :: "string option"
  user_attributes :: "(string \<times> string) list option"
  user_verified_at :: "time option"
  is_bot :: bool

record snapshot =
  role_ids :: "int list option"
  preserved_at :: "time option"

record user_verification_data =
  vd_discord_id :: int
  cas_login :: string
  cas_real_name :: "string option"
  cas_email :: "string option"
  verified_at :: time
  last_reverified_at :: time
  reverification_required :: bool
  reverification_reason :: "string option"
  reverification_requested_at :: "time option"
  reverification_wave_id :: "int option"
  preserved_roles :: "snapshot option"
  updated_at :: time

record verification_state =
  state :: string
  vs_discord_id :: int
  guild_id :: int
  is_initial :: bool
  expires_at :: time
  ip_address :: "string option"
  user_agent :: "string option"

record verification_audit =
  audit_discord_id :: "int option"
  audit_login :: string
  cas_username :: string
  state_sha256 :: "string option"
  ticket_sha256 :: "string option"
  result :: string
  error_message :: "string option"

text \<open>
  The store: the two tables keyed by \<open>discord_id\<close> as maps, the pending states in the
  order a query returns them, and the audit trail in the order it was written.
\<close>

record database =
  users :: "int \<rightharpoonup> user"
  verification_data :: "int \<rightharpoonup> user_verification_data"
  verification_states :: "verification_state list"
  audit_trail :: "verification_audit list"

text \<open>
  The dictionary \<open>validate_cas_ticket\<close> returns; a key that is absent is \<open>None\<close>, so
  that \<open>cas_data.get(key, default)\<close> is \<open>get_or\<close> and the empty dictionary of the
  failure audit has every key absent.
\<close>

record cas_data =
  uid :: "string option"
  login :: "string option"
  attributes :: "(string \<times> string) list option"
  mail :: "string option"
  givenName :: "string option"
  sn :: "string option"
  cn :: "string option"
  groups :: "string list option"
  eduPersonAffiliation :: "string list option"

definition empty_cas_data :: cas_data where
  "empty_cas_data = \<lparr>uid = None, login = None, attributes = None, mail = None,
     givenName = None, sn = None, cn = None, groups = None, eduPersonAffiliation = None\<rparr>"

definition get_or :: "'a option \<Rightarrow> 'a \<Rightarrow> 'a" where
  "get_or v d = (case v of None \<Rightarrow> d | Some x \<Rightarrow> x)"

text \<open>The fields of \<open>Config\<close> that the two services read.\<close>

record config =
  cas_login_url :: string
  cas_validate_url :: string
  service_url :: string
  state_secret_key :: string
  verification_state_expiry_minutes :: int
  student_role_id :: int
  teacher_role_id :: int

text \<open>
  The community platform as the services see it: the role ids the guild knows
  (\<open>guild.get_role\<close>), the id of its default role, and a member with the ids of the roles
  held.  \<open>member.add_roles\<close> is a call to the platform; its outcome is an input.
\<close>

record guild =
  guild_role_ids :: "int list"
  default_role_id :: int

record member =
  member_id :: int
  member_roles :: "int list"

datatype add_roles_outcome = Added | Forbidden | AddFailed string

definition get_role :: "guild \<Rightarrow> int \<Rightarrow> int option" where
  "get_role g role_id = (if role_id \<in> set (guild_role_ids g) then Some role_id else None)"

definition add_roles :: "member \<Rightarrow> int list \<Rightarrow> member" where
  "add_roles m rs =
     m\<lparr>member_roles := member_roles m @ filter (\<lambda>r. r \<notin> set (member_roles m)) (remdups rs)\<rparr>"

section \<open>Verification service\<close>

definition is_verified :: "database \<Rightarrow> int \<Rightarrow> bool" where
  "is_verified db discord_id =
     (case verification_data db discord_id of
        None \<Rightarrow> False
      | Some ver_data \<Rightarrow> if reverification_required ver_data then False else True)"

text \<open>
  \<open>save_verification_data\<close>.  The call reads the clock twice, once for the
  \<open>users\<close> row (\<open>now_user\<close>) and once for the verification row (\<open>now\<close>).

  The columns \<open>users.login\<close> and \<open>user_verification_data.cas_login\<close> are declared
  \<open>unique=True\<close>, and the method has no \<open>try\<close>: when a row of another subject
  already holds the login, the flush or the commit raises \<open>IntegrityError\<close>, the session
  is rolled back and the store stays as it was.  \<open>login_taken\<close> is that condition (a
  null login of \<open>users\<close> clashes with nothing); the result \<open>Inl\<close> is the exception.
\<close>

datatype store_error = IntegrityError

definition login_taken :: "database \<Rightarrow> int \<Rightarrow> string \<Rightarrow> bool" where
  "login_taken db discord_id l =
     ((\<exists>d' u. d' \<noteq> discord_id \<and> users db d' = Some u \<and> user_login u = Some l)
      \<or> (\<exists>d' v. d' \<noteq> discord_id \<and> verification_data db d' = Some v \<and> cas_login v = l))"

definition save_verification_data ::
  "database \<Rightarrow> int \<Rightarrow> cas_data \<Rightarrow> bool \<Rightarrow> time \<Rightarrow> time \<Rightarrow> store_error + database" where
  "save_verification_data db discord_id cd is_reverification now_user now =
     (let login_v = lower (get_or (login cd) []);
          email = get_or (mail cd) [];
          first_name = get_or (givenName cd) [];
          last_name = get_or (sn cd) [];
          full_name = strip (get_or (cn cd) (first_name @ '' '' @ last_name));
          utype = determine_user_type (get_or (groups cd) []) (get_or (eduPersonAffiliation cd) []);
          usr = (case users db discord_id of
                   None \<Rightarrow> \<lparr>user_discord_id = discord_id, user_login = Some login_v, activity = 1,
                             user_type = utype, verification = None, real_name = Some full_name,
                             user_attributes = Some (get_or (attributes cd) []),
                             user_verified_at = Some now_user, is_bot = False\<rparr>
                 | Some u \<Rightarrow> u\<lparr>user_login := Some login_v, activity := 1, user_type := utype,
                               real_name := Some full_name,
                               user_attributes := Some (get_or (attributes cd) []),
                               user_verified_at := Some now_user\<rparr>);
          ver_data = (case verification_data db discord_id of
                   None \<Rightarrow> \<lparr>vd_discord_id = discord_id, cas_login = login_v,
                             cas_real_name = Some full_name, cas_email = Some email,
                             verified_at = now, last_reverified_at = now,
                             reverification_required = False, reverification_reason = None,
                             reverification_requested_at = None, reverification_wave_id = None,
                             preserved_roles = None, updated_at = now\<rparr>
                 | Some v \<Rightarrow>
                     (let v1 = v\<lparr>cas_login := login_v, cas_real_name := Some full_name,
                                   cas_email := Some email, last_reverified_at := now\<rparr>;
                          v2 = (if is_reverification
                                then v1\<lparr>reverification_required := False,
                                        reverification_reason := None,
                                        reverification_wave_id := None\<rparr>
                                else v1)
                      in v2\<lparr>updated_at := now\<rparr>))
      in if login_taken db discord_id login_v then Inl IntegrityError
         else Inr (db\<lparr>users := (users db)(discord_id \<mapsto> usr),
                      verification_data := (verification_data db)(discord_id \<mapsto> ver_data)\<rparr>))"

text \<open>
  \<open>assign_verified_roles\<close>: the default role for the stored user type, when the guild
  still has it; a refusal of the platform is logged and swallowed.
\<close>

definition assign_verified_roles ::
  "config \<Rightarrow> database \<Rightarrow> guild \<Rightarrow> add_roles_outcome \<Rightarrow> member \<Rightarrow> member" where
  "assign_verified_roles cfg db g outcome m =
     (case users db (member_id m) of
        None \<Rightarrow> m
      | Some u \<Rightarrow>
          (let roles_to_add =
                 (if user_type u = 2
                  then (case get_role g (teacher_role_id cfg) of Some r \<Rightarrow> [r] | None \<Rightarrow> [])
                  else (case get_role g (student_role_id cfg) of Some r \<Rightarrow> [r] | None \<Rightarrow> []))
           in if roles_to_add \<noteq> []
              then (case outcome of Added \<Rightarrow> add_roles m roles_to_add | _ \<Rightarrow> m)
              else m))"

definition preserve_roles :: "database \<Rightarrow> guild \<Rightarrow> member \<Rightarrow> time \<Rightarrow> database" where
  "preserve_roles db g m now =
     (case verification_data db (member_id m) of
        None \<Rightarrow> db
      | Some ver_data \<Rightarrow>
          (let ids = filter (\<lambda>r. r \<noteq> default_role_id g) (member_roles m)
           in db\<lparr>verification_data := (verification_data db)(member_id m \<mapsto>
                 ver_data\<lparr>preserved_roles := Some \<lparr>role_ids = Some ids, preserved_at = Some now\<rparr>\<rparr>)\<rparr>))"

text \<open>
  \<open>restore_roles\<close>.  \<open>not ver_data.preserved_roles\<close> holds for a null column and for
  an empty JSON object.  The snapshot is cleared inside the \<open>try\<close>, after
  \<open>add_roles\<close> has returned.
\<close>

definition snapshot_falsy :: "snapshot option \<Rightarrow> bool" where
  "snapshot_falsy p =
     (case p of None \<Rightarrow> True | Some s \<Rightarrow> role_ids s = None \<and> preserved_at s = None)"

definition snapshot_role_ids :: "snapshot option \<Rightarrow> int list" where
  "snapshot_role_ids p = (case p of None \<Rightarrow> [] | Some s \<Rightarrow> get_or (role_ids s) [])"

definition existing_roles :: "guild \<Rightarrow> int list \<Rightarrow> int list" where
  "existing_roles g ids = List.map_filter (get_role g) ids"

definition restore_roles ::
  "config \<Rightarrow> database \<Rightarrow> guild \<Rightarrow> add_roles_outcome \<Rightarrow> member \<Rightarrow> database \<times> member" where
  "restore_roles cfg db g outcome m =
     (case verification_data db (member_id m) of
        None \<Rightarrow> (db, assign_verified_roles cfg db g outcome m)
      | Some ver_data \<Rightarrow>
          if snapshot_falsy (preserved_roles ver_data)
          then (db, assign_verified_roles cfg db g outcome m)
          else (let ids = snapshot_role_ids (preserved_roles ver_data);
                    roles_to_add = existing_roles g ids
                in if roles_to_add \<noteq> []
                   then (case outcome of
                           Added \<Rightarrow>
                             (db\<lparr>verification_data := (verification_data db)(member_id m \<mapsto>
                                   ver_data\<lparr>preserved_roles := None\<rparr>)\<rparr>,
                              add_roles m roles_to_add)
                         | _ \<Rightarrow> (db, m))
                   else (db, m)))"

text \<open>
  \<open>require_reverification\<close>.  The method has no \<open>raise\<close>; its outcome is written as a
  sum so that returning and failing can be told apart, \<open>Inl\<close> naming an error kind.
\<close>

definition require_reverification ::
  "database \<Rightarrow> int \<Rightarrow> string \<Rightarrow> int option \<Rightarrow> time \<Rightarrow> (string + unit) \<times> database" where
  "require_reverification db discord_id reason wave_id now =
     (case verification_data db discord_id of
        None \<Rightarrow> (Inr (), db)
      | Some ver_data \<Rightarrow>
          (Inr (), db\<lparr>verification_data := (verification_data db)(discord_id \<mapsto>
             ver_data\<lparr>reverification_required := True,
                      reverification_reason := Some reason,
                      reverification_requested_at := Some now,
                      reverification_wave_id := wave_id\<rparr>)\<rparr>))"

section \<open>CAS service\<close>

text \<open>
  What the service takes from its libraries is an input of the model: the hex digest
  \<open>hashlib.sha256(...).hexdigest()\<close> and \<open>urllib.parse.urlencode\<close>.
\<close>

record runtime =
  sha256_hex :: "string \<Rightarrow> string"
  urlencode :: "(string \<times> string) list \<Rightarrow> string"

text \<open>
  An element of the tree \<open>ET.fromstring\<close> builds: the tag in the \<open>{namespace}local\<close>
  form, the attribute dictionary, the text (possibly absent) and the child elements.  The
  provider is a function from the validation URL to what the \<open>GET\<close> and the parse make
  of it: an exception of the HTTP client (unreachable, timed out), a body that is not XML,
  or a document.
\<close>

datatype xml =
  Element (xml_tag: string) (xml_attrib: "(string \<times> string) list") (xml_text: "string option")
    (xml_children: "xml list")

datatype provider_response = TransportError string | Unparseable string | Document xml

datatype exn = ParseError string | OtherException string

definition cas_tag :: "string \<Rightarrow> string" where
  "cas_tag local = ''{http://www.yale.edu/tp/cas}'' @ local"

definition find_child :: "string \<Rightarrow> xml \<Rightarrow> xml option" where
  "find_child name e = List.find (\<lambda>c. xml_tag c = name) (xml_children e)"

definition local_name :: "string \<Rightarrow> string" where
  "local_name t = (if CHR ''}'' \<in> set t then tl (dropWhile (\<lambda>c. c \<noteq> CHR ''}'') t) else t)"

fun dict_set :: "('k \<times> 'v) list \<Rightarrow> 'k \<Rightarrow> 'v \<Rightarrow> ('k \<times> 'v) list" where
  "dict_set [] k v = [(k, v)]"
| "dict_set ((k', v') # d) k v = (if k' = k then (k, v) # d else (k', v') # dict_set d k v)"

definition collect_attributes :: "xml list \<Rightarrow> (string \<times> string) list" where
  "collect_attributes cs =
     foldl (\<lambda>d child. dict_set d (local_name (xml_tag child)) (strip (get_or (xml_text child) [])))
       [] cs"

definition user_info :: "xml \<Rightarrow> cas_data" where
  "user_info success =
     (let username = (case find_child (cas_tag ''user'') success of
                        None \<Rightarrow> []
                      | Some u \<Rightarrow> get_or (xml_text u) []);
          attrs = (case find_child (cas_tag ''attributes'') success of
                     None \<Rightarrow> []
                   | Some cas_attrs \<Rightarrow> collect_attributes (xml_children cas_attrs));
          attr = (\<lambda>k. get_or (map_of attrs k) [])
      in \<lparr>uid = Some username, login = Some username, attributes = Some attrs,
          mail = Some (attr ''mail''), givenName = Some (attr ''givenName''),
          sn = Some (attr ''sn''), cn = Some (attr ''cn''),
          groups = Some (if attr ''groups'' \<noteq> [] then split_on CHR '','' (attr ''groups'') else []),
          eduPersonAffiliation =
            Some (if attr ''eduPersonAffiliation'' \<noteq> []
                  then split_on CHR '','' (attr ''eduPersonAffiliation'') else [])\<rparr>)"

text \<open>
  \<open>validate_cas_ticket\<close>.  \<open>validate_body\<close> is the body of the \<open>try\<close>: an exception
  is \<open>Inl\<close>, a return is \<open>Inr\<close> of the value with the lines written at error level;
  \<open>failure_code\<close> and \<open>failure_message\<close> are the \<open>code\<close> and \<open>msg\<close> of the
  failure branch.
  \<open>validate_cas_ticket_run\<close> adds the two \<open>except\<close> clauses.  A failure code that is
  Python's \<open>None\<close> is printed as \<open>None\<close> by the f-string.
\<close>

definition validate_url :: "runtime \<Rightarrow> config \<Rightarrow> string \<Rightarrow> string \<Rightarrow> string" where
  "validate_url rt cfg ticket st =
     (let service_url_with_state = service_url cfg @ ''?state='' @ st
      in cas_validate_url cfg @ ''?''
           @ urlencode rt [(''ticket'', ticket), (''service'', service_url_with_state)])"

definition failure_code :: "xml \<Rightarrow> string option" where
  "failure_code doc_root =
     (case find_child (cas_tag ''authenticationFailure'') doc_root of
        Some failure \<Rightarrow> map_of (xml_attrib failure) ''code''
      | None \<Rightarrow> Some ''UNKNOWN'')"

definition failure_message :: "xml \<Rightarrow> string" where
  "failure_message doc_root =
     (case find_child (cas_tag ''authenticationFailure'') doc_root of
        Some failure \<Rightarrow> strip (get_or (xml_text failure) [])
      | None \<Rightarrow> ''CAS authentication failed'')"

definition validate_body ::
  "runtime \<Rightarrow> config \<Rightarrow> (string \<Rightarrow> provider_response) \<Rightarrow> string \<Rightarrow> string
     \<Rightarrow> exn + (cas_data option \<times> string list)" where
  "validate_body rt cfg provider ticket st =
     (case provider (validate_url rt cfg ticket st) of
        TransportError e \<Rightarrow> Inl (OtherException e)
      | Unparseable e \<Rightarrow> Inl (ParseError e)
      | Document doc_root \<Rightarrow>
          (case find_child (cas_tag ''authenticationSuccess'') doc_root of
             None \<Rightarrow>
               Inr (None, [''CAS validation failed: '' @ get_or (failure_code doc_root) ''None''
                             @ '' - '' @ failure_message doc_root])
           | Some success \<Rightarrow> Inr (Some (user_info success), [])))"

definition validate_cas_ticket_run ::
  "runtime \<Rightarrow> config \<Rightarrow> (string \<Rightarrow> provider_response) \<Rightarrow> string \<Rightarrow> string
     \<Rightarrow> cas_data option \<times> string list" where
  "validate_cas_ticket_run rt cfg provider ticket st =
     (case validate_body rt cfg provider ticket st of
        Inl (ParseError e) \<Rightarrow> (None, [''Failed to parse CAS XML response: '' @ e])
      | Inl (OtherException e) \<Rightarrow> (None, [''CAS ticket validation error: '' @ e])
      | Inr r \<Rightarrow> r)"

definition validate_cas_ticket ::
  "runtime \<Rightarrow> config \<Rightarrow> (string \<Rightarrow> provider_response) \<Rightarrow> string \<Rightarrow> string \<Rightarrow> cas_data option" where
  "validate_cas_ticket rt cfg provider ticket st =
     fst (validate_cas_ticket_run rt cfg provider ticket st)"

definition validate_cas_ticket_errors ::
  "runtime \<Rightarrow> config \<Rightarrow> (string \<Rightarrow> provider_response) \<Rightarrow> string \<Rightarrow> string \<Rightarrow> string list" where
  "validate_cas_ticket_errors rt cfg provider ticket st =
     snd (validate_cas_ticket_run rt cfg provider ticket st)"

text \<open>
  The state token.  \<open>state_hash\<close> is the digest of \<open>f"{state}:{discord_id}:{secret}"\<close>;
  \<open>generate_verification_url\<close> takes the fresh value of \<open>secrets.token_urlsafe(32)\<close>
  as its last argument and stores the digest with the expiry.
\<close>

definition state_hash :: "runtime \<Rightarrow> config \<Rightarrow> string \<Rightarrow> int \<Rightarrow> string" where
  "state_hash rt cfg st discord_id =
     sha256_hex rt (st @ '':'' @ str_int discord_id @ '':'' @ state_secret_key cfg)"

definition generate_verification_url ::
  "runtime \<Rightarrow> config \<Rightarrow> time \<Rightarrow> database \<Rightarrow> int \<Rightarrow> int \<Rightarrow> bool \<Rightarrow> string option \<Rightarrow> string option
     \<Rightarrow> string \<Rightarrow> (string \<times> string) \<times> database" where
  "generate_verification_url rt cfg now db discord_id gid is_reverification ip ua st =
     (let verification_state =
            \<lparr>state = state_hash rt cfg st discord_id, vs_discord_id = discord_id, guild_id = gid,
             is_initial = (\<not> is_reverification),
             expires_at = now + 60 * verification_state_expiry_minutes cfg,
             ip_address = ip, user_agent = ua\<rparr>;
          service_url_with_state = service_url cfg @ ''?state='' @ st;
          auth_url = cas_login_url cfg @ ''?'' @ urlencode rt [(''service'', service_url_with_state)]
      in ((auth_url, st),
          db\<lparr>verification_states := verification_states db @ [verification_state]\<rparr>))"

definition state_matches :: "runtime \<Rightarrow> config \<Rightarrow> string \<Rightarrow> verification_state \<Rightarrow> bool" where
  "state_matches rt cfg st vs = (state_hash rt cfg st (vs_discord_id vs) = state vs)"

fun find_matching_state ::
  "runtime \<Rightarrow> config \<Rightarrow> string \<Rightarrow> verification_state list \<Rightarrow> verification_state option" where
  "find_matching_state rt cfg st [] = None"
| "find_matching_state rt cfg st (vs # rest) =
     (if state_hash rt cfg st (vs_discord_id vs) = state vs then Some vs
      else find_matching_state rt cfg st rest)"

definition unexpired_states :: "database \<Rightarrow> time \<Rightarrow> verification_state list" where
  "unexpired_states db now = filter (\<lambda>vs. expires_at vs > now) (verification_states db)"

definition delete_state :: "database \<Rightarrow> verification_state \<Rightarrow> database" where
  "delete_state db vs =
     db\<lparr>verification_states := filter (\<lambda>v. state v \<noteq> state vs) (verification_states db)\<rparr>"

definition log_verification_audit ::
  "runtime \<Rightarrow> database \<Rightarrow> int option \<Rightarrow> cas_data \<Rightarrow> string \<Rightarrow> string \<Rightarrow> string \<Rightarrow> string option
     \<Rightarrow> database" where
  "log_verification_audit rt db discord_id cd st_hash ticket res err =
     db\<lparr>audit_trail := audit_trail db @
          [\<lparr>audit_discord_id = discord_id, audit_login = get_or (login cd) ''unknown'',
            cas_username = get_or (uid cd) ''unknown'', state_sha256 = Some st_hash,
            ticket_sha256 = Some (sha256_hex rt ticket), result = res, error_message = err\<rparr>]\<rparr>"

text \<open>
  \<open>handle_callback\<close>.  The only calls in its \<open>try\<close> that can raise are those to the
  store, so the exceptions are an input: \<open>fault\<close> says which store call raises, if any
  (the query for the pending states, the delete and commit of the matched state, or the
  write of the success audit), with the text of the exception.  \<open>callback_failed\<close> is
  the \<open>except\<close> clause; its own audit write sits in a bare \<open>try\<close>, and
  \<open>failure_audit_ok\<close> says whether that write goes through.  A failed delete is rolled
  back by the session.
\<close>

datatype store_fault = NoFault | QueryFault string | DeleteFault string | AuditFault string

datatype callback_result =
  CallbackFailure string
| CallbackSuccess int int cas_data bool

definition invalid_or_expired :: string where
  "invalid_or_expired = ''Invalid or expired verification state''"

definition callback_failed ::
  "runtime \<Rightarrow> bool \<Rightarrow> database \<Rightarrow> string \<Rightarrow> string \<Rightarrow> string \<Rightarrow> callback_result \<times> database" where
  "callback_failed rt failure_audit_ok db ticket st e =
     (CallbackFailure e,
      if failure_audit_ok
      then log_verification_audit rt db None empty_cas_data (take 64 st) ticket ''failure'' (Some e)
      else db)"

definition handle_callback ::
  "runtime \<Rightarrow> config \<Rightarrow> (string \<Rightarrow> provider_response) \<Rightarrow> store_fault \<Rightarrow> bool \<Rightarrow> time
     \<Rightarrow> database \<Rightarrow> string \<Rightarrow> string \<Rightarrow> callback_result \<times> database" where
  "handle_callback rt cfg provider fault failure_audit_ok now db ticket st =
     (case fault of
        QueryFault e \<Rightarrow> callback_failed rt failure_audit_ok db ticket st e
      | _ \<Rightarrow>
        (case find_matching_state rt cfg st (unexpired_states db now) of
           None \<Rightarrow> (CallbackFailure invalid_or_expired, db)
         | Some matching_state \<Rightarrow>
           (case fault of
              DeleteFault e \<Rightarrow> callback_failed rt failure_audit_ok db ticket st e
            | _ \<Rightarrow>
              (let db1 = delete_state db matching_state
               in case validate_cas_ticket rt cfg provider ticket st of
                    None \<Rightarrow> (CallbackFailure ''Failed to validate CAS ticket'', db1)
                  | Some cd \<Rightarrow>
                    (case fault of
                       AuditFault e \<Rightarrow> callback_failed rt failure_audit_ok db1 ticket st e
                     | _ \<Rightarrow>
                       (CallbackSuccess (vs_discord_id matching_state) (guild_id matching_state) cd
                          (\<not> is_initial matching_state),
                        log_verification_audit rt db1 (Some (vs_discord_id matching_state)) cd
                          (state matching_state) ticket ''success'' None))))))"

fun is_success :: "callback_result \<Rightarrow> bool" where
  "is_success (CallbackSuccess d g cd r) = True"
| "is_success (CallbackFailure e) = False"

section \<open>Sample data\<close>

text \<open>
  Concrete values at which the theorems below are instantiated: a configuration, a stand-in
  for the two library functions, provider documents, a guild with and without role
  \<open>20\<close>, a member before and after the roles are taken away, and stores with no rows,
  with one verified subject, and with one subject waiting for re-verification.
\<close>

definition sample_cfg :: config where
  "sample_cfg = \<lparr>cas_login_url = ''https://cas.example/login'',
     cas_validate_url = ''https://cas.example/serviceValidate'',
     service_url = ''https://bot.example/auth/callback'',
     state_secret_key = ''0123456789abcdef0123456789abcdef'',
     verification_state_expiry_minutes = 15, student_role_id = 100, teacher_role_id = 200\<rparr>"

definition sample_runtime :: runtime where
  "sample_runtime = \<lparr>sha256_hex = (\<lambda>s. ''#'' @ s),
     urlencode = (\<lambda>ps. concat (map (\<lambda>(k, v). k @ ''='' @ v @ ''&'') ps))\<rparr>"

definition failure_document :: "string \<Rightarrow> string \<Rightarrow> xml" where
  "failure_document code msg =
     Element (cas_tag ''serviceResponse'') [] None
       [Element (cas_tag ''authenticationFailure'') [(''code'', code)] (Some msg) []]"

definition success_document :: xml where
  "success_document =
     Element (cas_tag ''serviceResponse'') [] None
       [Element (cas_tag ''authenticationSuccess'') [] None
          [Element (cas_tag ''user'') [] (Some ''jan.novak'') [],
           Element (cas_tag ''attributes'') [] None
             [Element (cas_tag ''cn'') [] (Some ''Jan Novak'') [],
              Element (cas_tag ''mail'') [] (Some ''jan.novak@vsb.cz'') [],
              Element (cas_tag ''eduPersonAffiliation'') [] (Some ''faculty'') []]]]"

definition sample_cas_data :: cas_data where
  "sample_cas_data = \<lparr>uid = Some ''Jan.Novak'', login = Some ''Jan.Novak'',
     attributes = Some [(''cn'', ''Jan Novak'')], mail = Some ''jan.novak@vsb.cz'',
     givenName = Some [], sn = Some [], cn = Some ''Jan Novak'', groups = Some [],
     eduPersonAffiliation = Some [''faculty'']\<rparr>"

definition partial_cas_data :: cas_data where
  "partial_cas_data = empty_cas_data\<lparr>login := Some ''NOV0042'', givenName := Some ''Jan'',
     sn := Some ''Novak''\<rparr>"

definition clashing_cas_data :: cas_data where
  "clashing_cas_data = sample_cas_data\<lparr>uid := Some ''ABC0123'', login := Some ''ABC0123''\<rparr>"

definition sample_guild :: guild where
  "sample_guild = \<lparr>guild_role_ids = [1, 10, 20, 30, 100, 200], default_role_id = 1\<rparr>"

definition shrunk_guild :: guild where
  "shrunk_guild = \<lparr>guild_role_ids = [1, 10, 30, 100, 200], default_role_id = 1\<rparr>"

definition sample_member :: member where
  "sample_member = \<lparr>member_id = 7, member_roles = [1, 10, 20, 30]\<rparr>"

definition stripped_member :: member where
  "stripped_member = \<lparr>member_id = 7, member_roles = [1]\<rparr>"

definition sample_user :: user where
  "sample_user = \<lparr>user_discord_id = 7, user_login = Some ''abc0123'', activity = 1, user_type = 0,
     verification = None, real_name = Some ''Jan Novak'', user_attributes = Some [],
     user_verified_at = Some 100, is_bot = False\<rparr>"

definition sample_profile :: user_verification_data where
  "sample_profile = \<lparr>vd_discord_id = 7, cas_login = ''abc0123'',
     cas_real_name = Some ''Jan Novak'', cas_email = Some ''jan.novak@vsb.cz'',
     verified_at = 100, last_reverified_at = 100,
     reverification_required = False, reverification_reason = None,
     reverification_requested_at = None, reverification_wave_id = None,
     preserved_roles = None, updated_at = 100\<rparr>"

definition pending_profile :: user_verification_data where
  "pending_profile = sample_profile\<lparr>reverification_required := True,
     reverification_reason := Some ''Annual check'', reverification_requested_at := Some 400,
     reverification_wave_id := Some 3,
     preserved_roles := Some \<lparr>role_ids = Some [5], preserved_at = None\<rparr>\<rparr>"

definition empty_db :: database where
  "empty_db = \<lparr>users = Map.empty, verification_data = Map.empty, verification_states = [],
     audit_trail = []\<rparr>"

definition sample_db :: database where
  "sample_db = empty_db\<lparr>users := [7 \<mapsto> sample_user], verification_data := [7 \<mapsto> sample_profile]\<rparr>"

definition pending_db :: database where
  "pending_db = empty_db\<lparr>users := [7 \<mapsto> sample_user], verification_data := [7 \<mapsto> pending_profile]\<rparr>"

definition issued_db :: database where
  "issued_db = snd (generate_verification_url sample_runtime sample_cfg 1000 empty_db 7 9 False
     None None ''tok'')"

section \<open>Properties of the string helpers\<close>

lemma startswith_iff: "startswith p s \<longleftrightarrow> (\<exists>q. s = p @ q)"
  by (induction p s rule: startswith.induct) auto

lemma contains_iff: "contains sub s \<longleftrightarrow> (\<exists>p q. s = p @ sub @ q)"
proof (induction s)
  case Nil
  then show ?case by auto
next
  case (Cons c cs)
  show ?case
  proof
    assume "contains sub (c # cs)"
    then consider "startswith sub (c # cs)" | "contains sub cs" by auto
    then show "\<exists>p q. c # cs = p @ sub @ q"
    proof cases
      case 1
      then obtain q where "c # cs = sub @ q" by (auto simp: startswith_iff)
      then have "c # cs = [] @ sub @ q" by simp
      then show ?thesis by blast
    next
      case 2
      with Cons obtain p q where "cs = p @ sub @ q" by blast
      then have "c # cs = (c # p) @ sub @ q" by simp
      then show ?thesis by blast
    qed
  next
    assume "\<exists>p q. c # cs = p @ sub @ q"
    then obtain p q where pq: "c # cs = p @ sub @ q" by blast
    show "contains sub (c # cs)"
    proof (cases p)
      case Nil
      with pq have "startswith sub (c # cs)" by (auto simp: startswith_iff)
      then show ?thesis by simp
    next
      case (Cons a p')
      with pq have "cs = p' @ sub @ q" by simp
      with Cons.IH have "contains sub cs" by blast
      then show ?thesis by simp
    qed
  qed
qed

section \<open>Properties of the classifier\<close>

lemma scan_groups_eq:
  "scan_groups gs = (if \<exists>g \<in> set gs. any_keyword_in teacher_groups g then 2 else 0)"
  by (induction gs) auto

lemma scan_affiliations_eq:
  "scan_affiliations gs as =
     (if \<exists>a \<in> set as. any_keyword_in teacher_affiliations a then 2 else scan_groups gs)"
  by (induction as) auto

text \<open>
  C6.  The classifier is a function of its two lists alone, with values in \<open>{0, 2}\<close>
  (student, teacher).  It answers teacher when some affiliation, lowered, contains one of
  the teacher-affiliation keywords as a substring; failing that, teacher when some group,
  lowered, contains one of the teacher-group keywords; and student otherwise.  The
  affiliations are inspected first, so a matching affiliation decides whatever the groups
  are.
\<close>

theorem determine_user_type_spec:
  "determine_user_type gs affs =
     (if \<exists>a \<in> set affs. \<exists>k \<in> set teacher_affiliations. \<exists>p q. lower a = p @ k @ q then 2
      else if \<exists>g \<in> set gs. \<exists>k \<in> set teacher_groups. \<exists>p q. lower g = p @ k @ q then 2
      else 0)
   \<and> determine_user_type gs affs \<in> {0, 2}
   \<and> ((\<exists>a \<in> set affs. any_keyword_in teacher_affiliations a)
        \<longrightarrow> determine_user_type gs affs = 2)"
  by (simp add: determine_user_type_def scan_affiliations_eq scan_groups_eq any_keyword_in_def
      list_ex_iff contains_iff)

theorem determine_user_type_spec_witness:
  "(\<exists>a \<in> set [''faculty'']. any_keyword_in teacher_affiliations a)
   \<and> determine_user_type [''students''] [''faculty''] = 2
   \<and> determine_user_type [''students''] [''Student''] = 0
   \<and> determine_user_type [''IT-Staff''] [''student''] = 2"
proof -
  have hyp: "\<exists>a \<in> set [''faculty'']. any_keyword_in teacher_affiliations a"
    by code_simp
  with determine_user_type_spec [of "[''students'']" "[''faculty'']"]
  have "determine_user_type [''students''] [''faculty''] = 2" by blast
  moreover have "determine_user_type [''students''] [''Student''] = 0" by code_simp
  moreover have "determine_user_type [''IT-Staff''] [''student''] = 2" by code_simp
  ultimately show ?thesis using hyp by blast
qed

section \<open>Properties of the verification service\<close>

subsection \<open>Marking a subject for re-verification\<close>

text \<open>
  C2, as the claim states it, fails: on a subject with no profile
  \<open>require_reverification\<close> logs a warning and returns; no error reaches the caller.
  Here the store has no profile for subject \<open>42\<close>, and the call returns normally with
  the store as it was.
\<close>

theorem require_reverification_counterexample:
  "verification_data empty_db 42 = None
   \<and> require_reverification empty_db 42 ''Annual check'' None 500 = (Inr (), empty_db)
   \<and> fst (require_reverification empty_db 42 ''Annual check'' None 500) \<noteq> Inl ''ProfileNotFound''"
  by (simp add: require_reverification_def empty_db_def)

text \<open>
  C2, amended.  For a subject with no profile \<open>require_reverification\<close> returns without
  an error and leaves the store unchanged; for a subject with a profile it sets
  \<open>reverification_required\<close>, stamps the reason and the request time, and records the
  optional wave id.  In both cases the set of subjects that have a profile is the same
  after the call as before it.
\<close>

theorem require_reverification_spec:
  "(verification_data db d = None \<longrightarrow>
      require_reverification db d reason wave_id now = (Inr (), db))
   \<and> (\<forall>vd. verification_data db d = Some vd \<longrightarrow>
        require_reverification db d reason wave_id now =
          (Inr (), db\<lparr>verification_data := (verification_data db)(d \<mapsto>
             vd\<lparr>reverification_required := True, reverification_reason := Some reason,
                reverification_requested_at := Some now, reverification_wave_id := wave_id\<rparr>)\<rparr>))
   \<and> dom (verification_data (snd (require_reverification db d reason wave_id now)))
       = dom (verification_data db)"
  by (auto simp: require_reverification_def split: option.splits)

theorem require_reverification_spec_witness:
  "verification_data sample_db 7 = Some sample_profile
   \<and> verification_data sample_db 42 = None
   \<and> snd (require_reverification sample_db 42 ''Annual check'' (Some 3) 500) = sample_db
   \<and> map_option reverification_required
        (verification_data (snd (require_reverification sample_db 7 ''Annual check'' (Some 3) 500)) 7)
       = Some True
   \<and> map_option reverification_reason
        (verification_data (snd (require_reverification sample_db 7 ''Annual check'' (Some 3) 500)) 7)
       = Some (Some ''Annual check'')"
proof -
  have a: "verification_data sample_db 7 = Some sample_profile"
    and b: "verification_data sample_db 42 = None"
    by (simp_all add: sample_db_def empty_db_def)
  from require_reverification_spec [of sample_db 42 "''Annual check''" "Some 3" 500] b
  have c: "require_reverification sample_db 42 ''Annual check'' (Some 3) 500 = (Inr (), sample_db)"
    by blast
  from require_reverification_spec [of sample_db 7 "''Annual check''" "Some 3" 500] a
  have d: "require_reverification sample_db 7 ''Annual check'' (Some 3) 500 =
          (Inr (), sample_db\<lparr>verification_data := (verification_data sample_db)(7 \<mapsto>
             sample_profile\<lparr>reverification_required := True,
                reverification_reason := Some ''Annual check'',
                reverification_requested_at := Some 500, reverification_wave_id := Some 3\<rparr>)\<rparr>)"
    by blast
  show ?thesis using a b by (simp add: c d)
qed

subsection \<open>Recording a successful verification\<close>

lemma get_or_case: "get_or v d = (case v of None \<Rightarrow> d | Some x \<Rightarrow> x)"
  by (simp add: get_or_def)

lemma save_rejected:
  "login_taken db d (lower (case login cd of None \<Rightarrow> [] | Some l \<Rightarrow> l)) \<Longrightarrow>
   save_verification_data db d cd r nu now = Inl IntegrityError"
  by (simp add: save_verification_data_def Let_def get_or_case)

lemma save_first:
  assumes "\<not> login_taken db d (lower (case login cd of None \<Rightarrow> [] | Some l \<Rightarrow> l))"
      and "verification_data db d = None"
  shows "\<exists>db'. save_verification_data db d cd r nu now = Inr db'
           \<and> verification_data db' d =
               Some \<lparr>vd_discord_id = d,
                      cas_login = lower (case login cd of None \<Rightarrow> [] | Some l \<Rightarrow> l),
                      cas_real_name = Some (strip (case cn cd of
                          None \<Rightarrow> (case givenName cd of None \<Rightarrow> [] | Some f \<Rightarrow> f) @ '' ''
                                    @ (case sn cd of None \<Rightarrow> [] | Some l \<Rightarrow> l)
                        | Some c \<Rightarrow> c)),
                      cas_email = Some (case mail cd of None \<Rightarrow> [] | Some e \<Rightarrow> e),
                      verified_at = now, last_reverified_at = now,
                      reverification_required = False, reverification_reason = None,
                      reverification_requested_at = None, reverification_wave_id = None,
                      preserved_roles = None, updated_at = now\<rparr>
           \<and> (\<forall>d'. d' \<noteq> d \<longrightarrow> verification_data db' d' = verification_data db d')"
  using assms
  by (simp add: save_verification_data_def Let_def get_or_case split: option.splits)

lemma save_again:
  assumes "\<not> login_taken db d (lower (case login cd of None \<Rightarrow> [] | Some l \<Rightarrow> l))"
      and "verification_data db d = Some v"
  shows "\<exists>db'. save_verification_data db d cd r nu now = Inr db'
           \<and> verification_data db' d =
               Some (if r
                 then v\<lparr>cas_login := lower (case login cd of None \<Rightarrow> [] | Some l \<Rightarrow> l),
                        cas_real_name := Some (strip (case cn cd of
                            None \<Rightarrow> (case givenName cd of None \<Rightarrow> [] | Some f \<Rightarrow> f) @ '' ''
                                      @ (case sn cd of None \<Rightarrow> [] | Some l \<Rightarrow> l)
                          | Some c \<Rightarrow> c)),
                        cas_email := Some (case mail cd of None \<Rightarrow> [] | Some e \<Rightarrow> e),
                        last_reverified_at := now, reverification_required := False,
                        reverification_reason := None, reverification_wave_id := None,
                        updated_at := now\<rparr>
                 else v\<lparr>cas_login := lower (case login cd of None \<Rightarrow> [] | Some l \<Rightarrow> l),
                        cas_real_name := Some (strip (case cn cd of
                            None \<Rightarrow> (case givenName cd of None \<Rightarrow> [] | Some f \<Rightarrow> f) @ '' ''
                                      @ (case sn cd of None \<Rightarrow> [] | Some l \<Rightarrow> l)
                          | Some c \<Rightarrow> c)),
                        cas_email := Some (case mail cd of None \<Rightarrow> [] | Some e \<Rightarrow> e),
                        last_reverified_at := now, updated_at := now\<rparr>)
           \<and> (\<forall>d'. d' \<noteq> d \<longrightarrow> verification_data db' d' = verification_data db d')"
  using assms
  by (simp add: save_verification_data_def Let_def get_or_case split: option.splits)

lemma sample_lowered:
  "lower ''Jan.Novak'' = ''jan.novak''"
  "lower ''NOV0042'' = ''nov0042''"
  "lower ''ABC0123'' = ''abc0123''"
  by code_simp+

lemma sample_stripped: "strip ''Jan Novak'' = ''Jan Novak''"
  by (simp add: strip_def is_space_def)

lemma sample_db_login_taken: "login_taken sample_db 8 ''abc0123''"
proof -
  have "(7::int) \<noteq> 8 \<and> verification_data sample_db 7 = Some sample_profile
          \<and> cas_login sample_profile = ''abc0123''"
    by (simp add: sample_db_def empty_db_def sample_profile_def)
  then show ?thesis
    unfolding login_taken_def by blast
qed

lemma empty_db_login_free: "\<not> login_taken empty_db d l"
  by (simp add: login_taken_def empty_db_def)

lemma pending_db_login_free: "\<not> login_taken pending_db 7 l"
  by (auto simp: login_taken_def pending_db_def empty_db_def split: if_splits)

text \<open>
  C7, as the claim states it, fails.  Subject \<open>7\<close> is verified with the login
  \<open>abc0123\<close>; subject \<open>8\<close> has no profile and no \<open>users\<close> row.  The first success of
  subject \<open>8\<close>, with the provider login \<open>ABC0123\<close> (lowered to \<open>abc0123\<close>), runs
  into the unique login: the call raises and no profile is created.
\<close>

theorem save_verification_data_counterexample:
  "verification_data sample_db 8 = None
   \<and> users sample_db 8 = None
   \<and> map_option cas_login (verification_data sample_db 7) = Some ''abc0123''
   \<and> login clashing_cas_data = Some ''ABC0123''
   \<and> save_verification_data sample_db 8 clashing_cas_data False 600 601 = Inl IntegrityError"
proof -
  have a: "verification_data sample_db 8 = None" "users sample_db 8 = None"
    "map_option cas_login (verification_data sample_db 7) = Some ''abc0123''"
    by (simp_all add: sample_db_def empty_db_def sample_profile_def)
  have b: "login clashing_cas_data = Some ''ABC0123''"
    by (simp add: clashing_cas_data_def)
  have c: "save_verification_data sample_db 8 clashing_cas_data False 600 601 = Inl IntegrityError"
    by (simp add: save_verification_data_def Let_def get_or_case b sample_lowered
        sample_db_login_taken)
  from a b c show ?thesis by simp
qed

text \<open>
  C7, amended.  When no row of another subject holds the lowered provider login,
  \<open>save_verification_data\<close> upserts the profile of the subject and touches no other
  profile.  On the first success it creates the profile with
  \<open>verified_at = last_reverified_at = now\<close> and \<open>reverification_required = False\<close>, with
  the login lowered, the name stripped (the \<open>cn\<close> attribute, or given name, a space and
  surname when \<open>cn\<close> is absent) and the e-mail, an absent attribute counting as empty.
  On a later success it rewrites these three, sets \<open>last_reverified_at = now\<close> and keeps
  \<open>verified_at\<close>; when the call is a re-verification it clears
  \<open>reverification_required\<close>, \<open>reverification_reason\<close> and \<open>reverification_wave_id\<close>,
  so a pending forced re-verification is resolved.  When a row of another subject holds
  the login, the call raises \<open>IntegrityError\<close> and the store stays as it was.
\<close>

theorem save_verification_data_spec:
  "(login_taken db d (lower (case login cd of None \<Rightarrow> [] | Some l \<Rightarrow> l)) \<longrightarrow>
      save_verification_data db d cd r nu now = Inl IntegrityError)
   \<and> (\<not> login_taken db d (lower (case login cd of None \<Rightarrow> [] | Some l \<Rightarrow> l)) \<longrightarrow>
      (\<exists>db'. save_verification_data db d cd r nu now = Inr db'
         \<and> (verification_data db d = None \<longrightarrow>
              (\<exists>vd. verification_data db' d = Some vd
                 \<and> verified_at vd = now \<and> last_reverified_at vd = now
                 \<and> \<not> reverification_required vd
                 \<and> cas_login vd = lower (case login cd of None \<Rightarrow> [] | Some l \<Rightarrow> l)
                 \<and> cas_real_name vd = Some (strip (case cn cd of
                        None \<Rightarrow> (case givenName cd of None \<Rightarrow> [] | Some f \<Rightarrow> f) @ '' ''
                                  @ (case sn cd of None \<Rightarrow> [] | Some l \<Rightarrow> l)
                      | Some c \<Rightarrow> c))
                 \<and> cas_email vd = Some (case mail cd of None \<Rightarrow> [] | Some e \<Rightarrow> e)))
         \<and> (\<forall>v. verification_data db d = Some v \<longrightarrow>
              (\<exists>vd. verification_data db' d = Some vd
                 \<and> cas_login vd = lower (case login cd of None \<Rightarrow> [] | Some l \<Rightarrow> l)
                 \<and> cas_real_name vd = Some (strip (case cn cd of
                        None \<Rightarrow> (case givenName cd of None \<Rightarrow> [] | Some f \<Rightarrow> f) @ '' ''
                                  @ (case sn cd of None \<Rightarrow> [] | Some l \<Rightarrow> l)
                      | Some c \<Rightarrow> c))
                 \<and> cas_email vd = Some (case mail cd of None \<Rightarrow> [] | Some e \<Rightarrow> e)
                 \<and> last_reverified_at vd = now
                 \<and> verified_at vd = verified_at v
                 \<and> preserved_roles vd = preserved_roles v
                 \<and> (r \<longrightarrow> \<not> reverification_required vd \<and> reverification_reason vd = None
                          \<and> reverification_wave_id vd = None)))
         \<and> (\<forall>d'. d' \<noteq> d \<longrightarrow> verification_data db' d' = verification_data db d')))"
proof (intro conjI impI)
  assume "login_taken db d (lower (case login cd of None \<Rightarrow> [] | Some l \<Rightarrow> l))"
  then show "save_verification_data db d cd r nu now = Inl IntegrityError"
    by (rule save_rejected)
next
  assume free: "\<not> login_taken db d (lower (case login cd of None \<Rightarrow> [] | Some l \<Rightarrow> l))"
  show "\<exists>db'. save_verification_data db d cd r nu now = Inr db'
         \<and> (verification_data db d = None \<longrightarrow>
              (\<exists>vd. verification_data db' d = Some vd
                 \<and> verified_at vd = now \<and> last_reverified_at vd = now
                 \<and> \<not> reverification_required vd
                 \<and> cas_login vd = lower (case login cd of None \<Rightarrow> [] | Some l \<Rightarrow> l)
                 \<and> cas_real_name vd = Some (strip (case cn cd of
                        None \<Rightarrow> (case givenName cd of None \<Rightarrow> [] | Some f \<Rightarrow> f) @ '' ''
                                  @ (case sn cd of None \<Rightarrow> [] | Some l \<Rightarrow> l)
                      | Some c \<Rightarrow> c))
                 \<and> cas_email vd = Some (case mail cd of None \<Rightarrow> [] | Some e \<Rightarrow> e)))
         \<and> (\<forall>v. verification_data db d = Some v \<longrightarrow>
              (\<exists>vd. verification_data db' d = Some vd
                 \<and> cas_login vd = lower (case login cd of None \<Rightarrow> [] | Some l \<Rightarrow> l)
                 \<and> cas_real_name vd = Some (strip (case cn cd of
                        None \<Rightarrow> (case givenName cd of None \<Rightarrow> [] | Some f \<Rightarrow> f) @ '' ''
                                  @ (case sn cd of None \<Rightarrow> [] | Some l \<Rightarrow> l)
                      | Some c \<Rightarrow> c))
                 \<and> cas_email vd = Some (case mail cd of None \<Rightarrow> [] | Some e \<Rightarrow> e)
                 \<and> last_reverified_at vd = now
                 \<and> verified_at vd = verified_at v
                 \<and> preserved_roles vd = preserved_roles v
                 \<and> (r \<longrightarrow> \<not> reverification_required vd \<and> reverification_reason vd = None
                          \<and> reverification_wave_id vd = None)))
         \<and> (\<forall>d'. d' \<noteq> d \<longrightarrow> verification_data db' d' = verification_data db d')"
  proof (cases "verification_data db d")
    case None
    from save_first [OF free None, of r nu now] obtain db' where
      "save_verification_data db d cd r nu now = Inr db'"
      "verification_data db' d =
         Some \<lparr>vd_discord_id = d,
                cas_login = lower (case login cd of None \<Rightarrow> [] | Some l \<Rightarrow> l),
                cas_real_name = Some (strip (case cn cd of
                    None \<Rightarrow> (case givenName cd of None \<Rightarrow> [] | Some f \<Rightarrow> f) @ '' ''
                              @ (case sn cd of None \<Rightarrow> [] | Some l \<Rightarrow> l)
                  | Some c \<Rightarrow> c)),
                cas_email = Some (case mail cd of None \<Rightarrow> [] | Some e \<Rightarrow> e),
                verified_at = now, last_reverified_at = now,
                reverification_required = False, reverification_reason = None,
                reverification_requested_at = None, reverification_wave_id = None,
                preserved_roles = None, updated_at = now\<rparr>"
      "\<forall>d'. d' \<noteq> d \<longrightarrow> verification_data db' d' = verification_data db d'"
      by blast
    with None show ?thesis by simp
  next
    case (Some v)
    from save_again [OF free Some, of r nu now] obtain db' where
      "save_verification_data db d cd r nu now = Inr db'"
      "verification_data db' d =
         Some (if r
           then v\<lparr>cas_login := lower (case login cd of None \<Rightarrow> [] | Some l \<Rightarrow> l),
                  cas_real_name := Some (strip (case cn cd of
                      None \<Rightarrow> (case givenName cd of None \<Rightarrow> [] | Some f \<Rightarrow> f) @ '' ''
                                @ (case sn cd of None \<Rightarrow> [] | Some l \<Rightarrow> l)
                    | Some c \<Rightarrow> c)),
                  cas_email := Some (case mail cd of None \<Rightarrow> [] | Some e \<Rightarrow> e),
                  last_reverified_at := now, reverification_required := False,
                  reverification_reason := None, reverification_wave_id := None,
                  updated_at := now\<rparr>
           else v\<lparr>cas_login := lower (case login cd of None \<Rightarrow> [] | Some l \<Rightarrow> l),
                  cas_real_name := Some (strip (case cn cd of
                      None \<Rightarrow> (case givenName cd of None \<Rightarrow> [] | Some f \<Rightarrow> f) @ '' ''
                                @ (case sn cd of None \<Rightarrow> [] | Some l \<Rightarrow> l)
                    | Some c \<Rightarrow> c)),
                  cas_email := Some (case mail cd of None \<Rightarrow> [] | Some e \<Rightarrow> e),
                  last_reverified_at := now, updated_at := now\<rparr>)"
      "\<forall>d'. d' \<noteq> d \<longrightarrow> verification_data db' d' = verification_data db d'"
      by blast
    with Some show ?thesis by simp
  qed
qed

theorem save_verification_data_spec_witness:
  "(\<exists>db'. save_verification_data empty_db 7 sample_cas_data False 600 601 = Inr db'
      \<and> map_option cas_login (verification_data db' 7) = Some ''jan.novak''
      \<and> map_option cas_real_name (verification_data db' 7) = Some (Some ''Jan Novak'')
      \<and> map_option cas_email (verification_data db' 7) = Some (Some ''jan.novak@vsb.cz'')
      \<and> map_option verified_at (verification_data db' 7) = Some 601
      \<and> map_option last_reverified_at (verification_data db' 7) = Some 601
      \<and> map_option reverification_required (verification_data db' 7) = Some False)
   \<and> (\<exists>db'. save_verification_data empty_db 7 partial_cas_data False 600 601 = Inr db'
      \<and> map_option cas_login (verification_data db' 7) = Some ''nov0042''
      \<and> map_option cas_real_name (verification_data db' 7) = Some (Some ''Jan Novak'')
      \<and> map_option cas_email (verification_data db' 7) = Some (Some []))
   \<and> reverification_required pending_profile
   \<and> (\<exists>db'. save_verification_data pending_db 7 sample_cas_data True 600 601 = Inr db'
      \<and> map_option cas_login (verification_data db' 7) = Some ''jan.novak''
      \<and> map_option reverification_required (verification_data db' 7) = Some False
      \<and> map_option reverification_reason (verification_data db' 7) = Some None
      \<and> map_option reverification_wave_id (verification_data db' 7) = Some None
      \<and> map_option last_reverified_at (verification_data db' 7) = Some 601
      \<and> map_option verified_at (verification_data db' 7) = Some 100)
   \<and> save_verification_data sample_db 8 clashing_cas_data False 600 601 = Inl IntegrityError"
proof -
  have s1: "lower (case login sample_cas_data of None \<Rightarrow> [] | Some l \<Rightarrow> l) = ''jan.novak''"
    by (simp add: sample_cas_data_def sample_lowered)
  have s2: "strip (case cn sample_cas_data of
                None \<Rightarrow> (case givenName sample_cas_data of None \<Rightarrow> [] | Some f \<Rightarrow> f) @ '' ''
                          @ (case sn sample_cas_data of None \<Rightarrow> [] | Some l \<Rightarrow> l)
              | Some c \<Rightarrow> c) = ''Jan Novak''"
    by (simp add: sample_cas_data_def sample_stripped)
  have s3: "(case mail sample_cas_data of None \<Rightarrow> [] | Some e \<Rightarrow> e) = ''jan.novak@vsb.cz''"
    by (simp add: sample_cas_data_def)
  have p1: "lower (case login partial_cas_data of None \<Rightarrow> [] | Some l \<Rightarrow> l) = ''nov0042''"
    by (simp add: partial_cas_data_def empty_cas_data_def sample_lowered)
  have p2: "strip (case cn partial_cas_data of
                None \<Rightarrow> (case givenName partial_cas_data of None \<Rightarrow> [] | Some f \<Rightarrow> f) @ '' ''
                          @ (case sn partial_cas_data of None \<Rightarrow> [] | Some l \<Rightarrow> l)
              | Some c \<Rightarrow> c) = ''Jan Novak''"
    by (simp add: partial_cas_data_def empty_cas_data_def sample_stripped)
  have p3: "(case mail partial_cas_data of None \<Rightarrow> [] | Some e \<Rightarrow> e) = []"
    by (simp add: partial_cas_data_def empty_cas_data_def)
  have c1: "lower (case login clashing_cas_data of None \<Rightarrow> [] | Some l \<Rightarrow> l) = ''abc0123''"
    by (simp add: clashing_cas_data_def sample_lowered)
  have e: "verification_data empty_db 7 = None"
    by (simp add: empty_db_def)
  have q: "verification_data pending_db 7 = Some pending_profile"
    by (simp add: pending_db_def empty_db_def)
  have q': "reverification_required pending_profile" "verified_at pending_profile = 100"
    by (simp_all add: pending_profile_def sample_profile_def)
  have free1: "\<not> login_taken empty_db 7
                 (lower (case login sample_cas_data of None \<Rightarrow> [] | Some l \<Rightarrow> l))"
    and free2: "\<not> login_taken empty_db 7
                 (lower (case login partial_cas_data of None \<Rightarrow> [] | Some l \<Rightarrow> l))"
    by (rule empty_db_login_free)+
  have free3: "\<not> login_taken pending_db 7
                 (lower (case login sample_cas_data of None \<Rightarrow> [] | Some l \<Rightarrow> l))"
    by (rule pending_db_login_free)
  have taken: "login_taken sample_db 8
                 (lower (case login clashing_cas_data of None \<Rightarrow> [] | Some l \<Rightarrow> l))"
    by (simp only: c1 sample_db_login_taken)
  from save_verification_data_spec [of empty_db 7 sample_cas_data False 600 601] free1 e
  obtain db1 vd1 where w1:
    "save_verification_data empty_db 7 sample_cas_data False 600 601 = Inr db1"
    "verification_data db1 7 = Some vd1"
    "verified_at vd1 = 601" "last_reverified_at vd1 = 601" "\<not> reverification_required vd1"
    "cas_login vd1 = ''jan.novak''" "cas_real_name vd1 = Some ''Jan Novak''"
    "cas_email vd1 = Some ''jan.novak@vsb.cz''"
    unfolding s1 s2 s3 by blast
  from save_verification_data_spec [of empty_db 7 partial_cas_data False 600 601] free2 e
  obtain db2 vd2 where w2:
    "save_verification_data empty_db 7 partial_cas_data False 600 601 = Inr db2"
    "verification_data db2 7 = Some vd2"
    "cas_login vd2 = ''nov0042''" "cas_real_name vd2 = Some ''Jan Novak''"
    "cas_email vd2 = Some []"
    unfolding p1 p2 p3 by blast
  from save_verification_data_spec [of pending_db 7 sample_cas_data True 600 601] free3 q
  obtain db3 vd3 where w3:
    "save_verification_data pending_db 7 sample_cas_data True 600 601 = Inr db3"
    "verification_data db3 7 = Some vd3"
    "cas_login vd3 = ''jan.novak''" "last_reverified_at vd3 = 601"
    "verified_at vd3 = verified_at pending_profile"
    "\<not> reverification_required vd3" "reverification_reason vd3 = None"
    "reverification_wave_id vd3 = None"
    unfolding s1 s2 s3 by blast
  from save_verification_data_spec [of sample_db 8 clashing_cas_data False 600 601] taken
  have w4: "save_verification_data sample_db 8 clashing_cas_data False 600 601 = Inl IntegrityError"
    by blast
  have g1: "\<exists>db'. save_verification_data empty_db 7 sample_cas_data False 600 601 = Inr db'
      \<and> map_option cas_login (verification_data db' 7) = Some ''jan.novak''
      \<and> map_option cas_real_name (verification_data db' 7) = Some (Some ''Jan Novak'')
      \<and> map_option cas_email (verification_data db' 7) = Some (Some ''jan.novak@vsb.cz'')
      \<and> map_option verified_at (verification_data db' 7) = Some 601
      \<and> map_option last_reverified_at (verification_data db' 7) = Some 601
      \<and> map_option reverification_required (verification_data db' 7) = Some False"
    using w1 by simp
  have g2: "\<exists>db'. save_verification_data empty_db 7 partial_cas_data False 600 601 = Inr db'
      \<and> map_option cas_login (verification_data db' 7) = Some ''nov0042''
      \<and> map_option cas_real_name (verification_data db' 7) = Some (Some ''Jan Novak'')
      \<and> map_option cas_email (verification_data db' 7) = Some (Some [])"
    using w2 by simp
  have g3: "\<exists>db'. save_verification_data pending_db 7 sample_cas_data True 600 601 = Inr db'
      \<and> map_option cas_login (verification_data db' 7) = Some ''jan.novak''
      \<and> map_option reverification_required (verification_data db' 7) = Some False
      \<and> map_option reverification_reason (verification_data db' 7) = Some None
      \<and> map_option reverification_wave_id (verification_data db' 7) = Some None
      \<and> map_option last_reverified_at (verification_data db' 7) = Some 601
      \<and> map_option verified_at (verification_data db' 7) = Some 100"
    using w3 q' by simp
  from g1 g2 q'(1) g3 w4 show ?thesis by blast
qed

subsection \<open>Role preservation\<close>

lemma set_existing_roles: "set (existing_roles g ids) = set ids \<inter> set (guild_role_ids g)"
  by (induction ids) (auto simp: existing_roles_def get_role_def)

lemma existing_roles_all: "set ids \<subseteq> set (guild_role_ids g) \<Longrightarrow> existing_roles g ids = ids"
  by (induction ids) (auto simp: existing_roles_def get_role_def)

lemma set_add_roles: "set (member_roles (add_roles m rs)) = set (member_roles m) \<union> set rs"
  by (auto simp: add_roles_def)

lemma member_id_add_roles: "member_id (add_roles m rs) = member_id m"
  by (simp add: add_roles_def)

lemma preserve_roles_profile:
  "verification_data db (member_id m) = Some vd \<Longrightarrow>
   preserve_roles db g m now =
     db\<lparr>verification_data := (verification_data db)(member_id m \<mapsto>
          vd\<lparr>preserved_roles :=
               Some \<lparr>role_ids = Some (filter (\<lambda>r. r \<noteq> default_role_id g) (member_roles m)),
                     preserved_at = Some now\<rparr>\<rparr>)\<rparr>"
  by (simp add: preserve_roles_def Let_def)

lemma restore_roles_granted:
  assumes "verification_data db (member_id m) = Some vd"
      and "\<not> snapshot_falsy (preserved_roles vd)"
      and "existing_roles g (snapshot_role_ids (preserved_roles vd)) \<noteq> []"
  shows "restore_roles cfg db g Added m =
           (db\<lparr>verification_data := (verification_data db)(member_id m \<mapsto>
                 vd\<lparr>preserved_roles := None\<rparr>)\<rparr>,
            add_roles m (existing_roles g (snapshot_role_ids (preserved_roles vd))))"
  using assms by (simp add: restore_roles_def Let_def)

lemma restore_roles_default:
  assumes "verification_data db (member_id m) = None
           \<or> (\<exists>vd. verification_data db (member_id m) = Some vd
                 \<and> snapshot_falsy (preserved_roles vd))"
  shows "restore_roles cfg db g outcome m = (db, assign_verified_roles cfg db g outcome m)"
  using assms by (auto simp: restore_roles_def)

lemma restore_roles_unchanged:
  assumes "verification_data db (member_id m) = Some vd"
      and "\<not> snapshot_falsy (preserved_roles vd)"
      and "snapshot_role_ids (preserved_roles vd) = []
           \<or> existing_roles g (snapshot_role_ids (preserved_roles vd)) = []
           \<or> outcome \<noteq> Added"
  shows "restore_roles cfg db g outcome m = (db, m)"
  using assms
  by (auto simp: restore_roles_def Let_def existing_roles_def split: add_roles_outcome.splits)

lemma assign_verified_roles_default:
  assumes "users db (member_id m) = Some u"
      and "(if user_type u = 2 then teacher_role_id cfg else student_role_id cfg)
             \<in> set (guild_role_ids g)"
  shows "set (member_roles (assign_verified_roles cfg db g Added m)) =
           insert (if user_type u = 2 then teacher_role_id cfg else student_role_id cfg)
             (set (member_roles m))"
  using assms by (auto simp: assign_verified_roles_def get_role_def set_add_roles)

lemma restore_after_preserve:
  assumes prof: "verification_data db (member_id m) = Some vd"
      and who: "member_id m' = member_id m"
      and some: "existing_roles g' (filter (\<lambda>r. r \<noteq> default_role_id g) (member_roles m)) \<noteq> []"
  shows "restore_roles cfg (preserve_roles db g m now) g' Added m' =
           (db\<lparr>verification_data := (verification_data db)(member_id m \<mapsto>
                 vd\<lparr>preserved_roles := None\<rparr>)\<rparr>,
            add_roles m' (existing_roles g' (filter (\<lambda>r. r \<noteq> default_role_id g) (member_roles m))))"
proof -
  let ?snap = "filter (\<lambda>r. r \<noteq> default_role_id g) (member_roles m)"
  let ?vd1 = "vd\<lparr>preserved_roles := Some \<lparr>role_ids = Some ?snap, preserved_at = Some now\<rparr>\<rparr>"
  let ?db1 = "preserve_roles db g m now"
  have db1: "?db1 = db\<lparr>verification_data := (verification_data db)(member_id m \<mapsto> ?vd1)\<rparr>"
    using prof by (rule preserve_roles_profile)
  have p1: "verification_data ?db1 (member_id m') = Some ?vd1"
    by (simp add: db1 who)
  have truthy: "\<not> snapshot_falsy (preserved_roles ?vd1)"
    by (simp add: snapshot_falsy_def)
  have ids: "snapshot_role_ids (preserved_roles ?vd1) = ?snap"
    by (simp add: snapshot_role_ids_def get_or_def)
  have "restore_roles cfg ?db1 g' Added m' =
          (?db1\<lparr>verification_data := (verification_data ?db1)(member_id m' \<mapsto>
                 ?vd1\<lparr>preserved_roles := None\<rparr>)\<rparr>,
           add_roles m' (existing_roles g' ?snap))"
    using restore_roles_granted [OF p1 truthy, of g' cfg] some by (simp only: ids) simp
  then show ?thesis by (simp add: db1 who)
qed

text \<open>
  C10.  When a snapshot is stored and its list of role ids is empty, or none of its ids
  names a role the guild still has, or the platform does not accept the grant,
  \<open>restore_roles\<close> leaves the store as it was (and the member too), so a later restore
  starts from the same snapshot.
\<close>

theorem restore_roles_keeps_snapshot:
  assumes "verification_data db (member_id m) = Some vd"
      and "\<not> snapshot_falsy (preserved_roles vd)"
      and "snapshot_role_ids (preserved_roles vd) = []
           \<or> existing_roles g (snapshot_role_ids (preserved_roles vd)) = []
           \<or> outcome \<noteq> Added"
  shows "restore_roles cfg db g outcome m = (db, m)
       \<and> verification_data (fst (restore_roles cfg db g outcome m)) (member_id m) = Some vd
       \<and> restore_roles cfg (fst (restore_roles cfg db g outcome m)) g' outcome' m'
           = restore_roles cfg db g' outcome' m'"
  using assms restore_roles_unchanged [OF assms, of cfg] by simp

theorem restore_roles_keeps_snapshot_witness:
  "verification_data pending_db (member_id stripped_member) = Some pending_profile
   \<and> \<not> snapshot_falsy (preserved_roles pending_profile)
   \<and> existing_roles sample_guild (snapshot_role_ids (preserved_roles pending_profile)) = []
   \<and> restore_roles sample_cfg pending_db sample_guild Added stripped_member
       = (pending_db, stripped_member)
   \<and> restore_roles sample_cfg pending_db sample_guild Forbidden stripped_member
       = (pending_db, stripped_member)"
proof -
  have a: "verification_data pending_db (member_id stripped_member) = Some pending_profile"
    by (simp add: pending_db_def empty_db_def stripped_member_def)
  have b: "\<not> snapshot_falsy (preserved_roles pending_profile)"
    by (simp add: pending_profile_def snapshot_falsy_def)
  have c: "existing_roles sample_guild (snapshot_role_ids (preserved_roles pending_profile)) = []"
    by (simp add: pending_profile_def snapshot_role_ids_def get_or_def existing_roles_def
        get_role_def sample_guild_def)
  have d: "Forbidden \<noteq> Added" by simp
  from restore_roles_keeps_snapshot [OF a b, of sample_guild Added sample_cfg] c
  have e: "restore_roles sample_cfg pending_db sample_guild Added stripped_member
             = (pending_db, stripped_member)" by blast
  from restore_roles_keeps_snapshot [OF a b, of sample_guild Forbidden sample_cfg] d
  have f: "restore_roles sample_cfg pending_db sample_guild Forbidden stripped_member
             = (pending_db, stripped_member)" by blast
  from a b c e f show ?thesis by blast
qed

text \<open>
  C8, as the claim states it, fails.  The member holds roles \<open>1\<close> (the default role),
  \<open>10\<close>, \<open>20\<close> and \<open>30\<close>; the snapshot is \<open>[10, 20, 30]\<close>.  (a) When the guild has
  lost role \<open>20\<close> in the meantime, the restore grants \<open>10\<close> and \<open>30\<close> only.  (b) When
  the platform refuses the grant, nothing is restored and the snapshot stays stored.
  (c) When the member held the default role alone, the snapshot is the empty list, the
  restore grants nothing, the snapshot stays stored, and a second restore grants no
  default role either.
\<close>

theorem snapshot_restore_counterexample:
  "set (member_roles (snd (restore_roles sample_cfg
          (preserve_roles sample_db sample_guild sample_member 500) shrunk_guild Added
          stripped_member))) = {1, 10, 30}
   \<and> restore_roles sample_cfg (preserve_roles sample_db sample_guild sample_member 500)
         sample_guild Forbidden stripped_member
       = (preserve_roles sample_db sample_guild sample_member 500, stripped_member)
   \<and> map_option preserved_roles
         (verification_data (preserve_roles sample_db sample_guild sample_member 500) 7)
       = Some (Some \<lparr>role_ids = Some [10, 20, 30], preserved_at = Some 500\<rparr>)
   \<and> restore_roles sample_cfg (preserve_roles sample_db sample_guild stripped_member 500)
         sample_guild Added stripped_member
       = (preserve_roles sample_db sample_guild stripped_member 500, stripped_member)
   \<and> map_option preserved_roles
         (verification_data (preserve_roles sample_db sample_guild stripped_member 500) 7)
       = Some (Some \<lparr>role_ids = Some [], preserved_at = Some 500\<rparr>)"
proof -
  let ?snap = "\<lparr>role_ids = Some [10, 20, 30], preserved_at = Some 500\<rparr>"
  let ?none = "\<lparr>role_ids = Some [], preserved_at = Some (500 :: int)\<rparr>"
  have prof: "verification_data sample_db (member_id sample_member) = Some sample_profile"
    by (simp add: sample_db_def empty_db_def sample_member_def)
  have prof': "verification_data sample_db (member_id stripped_member) = Some sample_profile"
    by (simp add: sample_db_def empty_db_def stripped_member_def)
  have who: "member_id stripped_member = member_id sample_member"
    by (simp add: stripped_member_def sample_member_def)
  have snap: "filter (\<lambda>r. r \<noteq> default_role_id sample_guild) (member_roles sample_member)
                = [10, 20, 30]"
    by (simp add: sample_guild_def sample_member_def)
  have snap': "filter (\<lambda>r. r \<noteq> default_role_id sample_guild) (member_roles stripped_member) = []"
    by (simp add: sample_guild_def stripped_member_def)
  have ex: "existing_roles shrunk_guild [10, 20, 30] = [10, 30]"
    by (simp add: existing_roles_def get_role_def shrunk_guild_def)
  have p1: "preserve_roles sample_db sample_guild sample_member 500 =
              sample_db\<lparr>verification_data := (verification_data sample_db)(7 \<mapsto>
                sample_profile\<lparr>preserved_roles := Some ?snap\<rparr>)\<rparr>"
    using preserve_roles_profile [OF prof, of sample_guild 500]
    by (simp add: snap) (simp add: sample_member_def)
  have p2: "preserve_roles sample_db sample_guild stripped_member 500 =
              sample_db\<lparr>verification_data := (verification_data sample_db)(7 \<mapsto>
                sample_profile\<lparr>preserved_roles := Some ?none\<rparr>)\<rparr>"
    using preserve_roles_profile [OF prof', of sample_guild 500]
    by (simp add: snap') (simp add: stripped_member_def)
  have a: "set (member_roles (snd (restore_roles sample_cfg
             (preserve_roles sample_db sample_guild sample_member 500) shrunk_guild Added
             stripped_member))) = {1, 10, 30}"
    using restore_after_preserve [OF prof who, of shrunk_guild sample_guild sample_cfg 500]
    by (simp add: snap ex set_add_roles) (auto simp: stripped_member_def)
  have q1: "verification_data (preserve_roles sample_db sample_guild sample_member 500)
              (member_id stripped_member) = Some (sample_profile\<lparr>preserved_roles := Some ?snap\<rparr>)"
    by (simp only: p1) (simp add: stripped_member_def)
  have b: "restore_roles sample_cfg (preserve_roles sample_db sample_guild sample_member 500)
             sample_guild Forbidden stripped_member
           = (preserve_roles sample_db sample_guild sample_member 500, stripped_member)"
    by (rule restore_roles_unchanged [OF q1]) (simp_all add: snapshot_falsy_def)
  have q2: "verification_data (preserve_roles sample_db sample_guild stripped_member 500)
              (member_id stripped_member) = Some (sample_profile\<lparr>preserved_roles := Some ?none\<rparr>)"
    by (simp only: p2) (simp add: stripped_member_def)
  have c: "restore_roles sample_cfg (preserve_roles sample_db sample_guild stripped_member 500)
             sample_guild Added stripped_member
           = (preserve_roles sample_db sample_guild stripped_member 500, stripped_member)"
    by (rule restore_roles_unchanged [OF q2])
       (simp_all add: snapshot_falsy_def snapshot_role_ids_def get_or_def)
  have d: "map_option preserved_roles
             (verification_data (preserve_roles sample_db sample_guild sample_member 500) 7)
           = Some (Some ?snap)"
    by (simp add: p1)
  have e: "map_option preserved_roles
             (verification_data (preserve_roles sample_db sample_guild stripped_member 500) 7)
           = Some (Some ?none)"
    by (simp add: p2)
  from a b c d e show ?thesis by blast
qed

text \<open>
  C8, amended.  For a subject with a profile, \<open>preserve_roles\<close> stores the ids of the
  roles held, the default (everyone) role left out.  When at least one of the stored
  roles still exists in the guild and the platform accepts the grant, the following
  \<open>restore_roles\<close> adds exactly the stored roles that still exist (all of them when
  none was deleted) and clears the stored snapshot, so that a second restore without a
  snapshot in between takes the default-role path.  A restore on a subject with no
  snapshot takes the same path, which grants the role of the stored user type (teacher
  or student) when the guild has it and the platform accepts.
\<close>

theorem snapshot_restore_roundtrip:
  assumes prof: "verification_data db (member_id m) = Some vd"
      and who: "member_id m' = member_id m"
      and some: "existing_roles g' (filter (\<lambda>r. r \<noteq> default_role_id g) (member_roles m)) \<noteq> []"
  shows "verification_data (preserve_roles db g m now) (member_id m) =
           Some (vd\<lparr>preserved_roles :=
                   Some \<lparr>role_ids = Some (filter (\<lambda>r. r \<noteq> default_role_id g) (member_roles m)),
                         preserved_at = Some now\<rparr>\<rparr>)
       \<and> set (member_roles (snd (restore_roles cfg (preserve_roles db g m now) g' Added m'))) =
           set (member_roles m')
           \<union> (set (filter (\<lambda>r. r \<noteq> default_role_id g) (member_roles m)) \<inter> set (guild_role_ids g'))
       \<and> (set (filter (\<lambda>r. r \<noteq> default_role_id g) (member_roles m)) \<subseteq> set (guild_role_ids g') \<longrightarrow>
            snd (restore_roles cfg (preserve_roles db g m now) g' Added m') =
              add_roles m' (filter (\<lambda>r. r \<noteq> default_role_id g) (member_roles m)))
       \<and> verification_data (fst (restore_roles cfg (preserve_roles db g m now) g' Added m'))
            (member_id m) = Some (vd\<lparr>preserved_roles := None\<rparr>)
       \<and> restore_roles cfg (fst (restore_roles cfg (preserve_roles db g m now) g' Added m')) g' outcome
            (snd (restore_roles cfg (preserve_roles db g m now) g' Added m'))
           = (fst (restore_roles cfg (preserve_roles db g m now) g' Added m'),
              assign_verified_roles cfg (fst (restore_roles cfg (preserve_roles db g m now) g' Added m')) g'
                outcome (snd (restore_roles cfg (preserve_roles db g m now) g' Added m')))
       \<and> (snapshot_falsy (preserved_roles vd) \<longrightarrow>
            restore_roles cfg db g' outcome m = (db, assign_verified_roles cfg db g' outcome m))
       \<and> (\<forall>db' m'' u. users db' (member_id m'') = Some u
              \<and> (if user_type u = 2 then teacher_role_id cfg else student_role_id cfg)
                   \<in> set (guild_role_ids g')
            \<longrightarrow> set (member_roles (assign_verified_roles cfg db' g' Added m'')) =
                  insert (if user_type u = 2 then teacher_role_id cfg else student_role_id cfg)
                    (set (member_roles m'')))"
proof -
  let ?snap = "filter (\<lambda>r. r \<noteq> default_role_id g) (member_roles m)"
  let ?vd1 = "vd\<lparr>preserved_roles := Some \<lparr>role_ids = Some ?snap, preserved_at = Some now\<rparr>\<rparr>"
  let ?db1 = "preserve_roles db g m now"
  let ?db2 = "db\<lparr>verification_data := (verification_data db)(member_id m \<mapsto>
                vd\<lparr>preserved_roles := None\<rparr>)\<rparr>"
  let ?m2 = "add_roles m' (existing_roles g' ?snap)"
  have db1: "?db1 = db\<lparr>verification_data := (verification_data db)(member_id m \<mapsto> ?vd1)\<rparr>"
    using prof by (rule preserve_roles_profile)
  have r1: "restore_roles cfg ?db1 g' Added m' = (?db2, ?m2)"
    using prof who some by (rule restore_after_preserve)
  have p2: "verification_data ?db2 (member_id m') = Some (vd\<lparr>preserved_roles := None\<rparr>)"
    by (simp add: who)
  have r2: "restore_roles cfg ?db2 g' outcome ?m2 =
              (?db2, assign_verified_roles cfg ?db2 g' outcome ?m2)"
    by (rule restore_roles_default)
       (simp only: member_id_add_roles p2, simp add: snapshot_falsy_def)
  have c1: "verification_data ?db1 (member_id m) = Some ?vd1"
    by (simp add: db1)
  have c2: "set (member_roles (snd (restore_roles cfg ?db1 g' Added m'))) =
              set (member_roles m') \<union> (set ?snap \<inter> set (guild_role_ids g'))"
    by (simp only: r1 snd_conv set_add_roles set_existing_roles)
  have c3: "set ?snap \<subseteq> set (guild_role_ids g') \<longrightarrow>
              snd (restore_roles cfg ?db1 g' Added m') = add_roles m' ?snap"
    by (simp only: r1 snd_conv) (simp add: existing_roles_all)
  have c4: "verification_data (fst (restore_roles cfg ?db1 g' Added m')) (member_id m)
              = Some (vd\<lparr>preserved_roles := None\<rparr>)"
    by (simp only: r1 fst_conv) simp
  have c5: "restore_roles cfg (fst (restore_roles cfg ?db1 g' Added m')) g' outcome
              (snd (restore_roles cfg ?db1 g' Added m'))
            = (fst (restore_roles cfg ?db1 g' Added m'),
               assign_verified_roles cfg (fst (restore_roles cfg ?db1 g' Added m')) g' outcome
                 (snd (restore_roles cfg ?db1 g' Added m')))"
    by (simp only: r1 fst_conv snd_conv r2)
  have c6: "snapshot_falsy (preserved_roles vd) \<longrightarrow>
              restore_roles cfg db g' outcome m = (db, assign_verified_roles cfg db g' outcome m)"
    using prof by (auto intro: restore_roles_default)
  have c7: "\<forall>db' m'' u. users db' (member_id m'') = Some u
              \<and> (if user_type u = 2 then teacher_role_id cfg else student_role_id cfg)
                   \<in> set (guild_role_ids g')
            \<longrightarrow> set (member_roles (assign_verified_roles cfg db' g' Added m'')) =
                  insert (if user_type u = 2 then teacher_role_id cfg else student_role_id cfg)
                    (set (member_roles m''))"
    using assign_verified_roles_default by blast
  from c1 c2 c3 c4 c5 c6 c7 show ?thesis by blast
qed

theorem snapshot_restore_roundtrip_witness:
  "verification_data sample_db (member_id sample_member) = Some sample_profile
   \<and> member_id stripped_member = member_id sample_member
   \<and> existing_roles sample_guild
        (filter (\<lambda>r. r \<noteq> default_role_id sample_guild) (member_roles sample_member)) \<noteq> []
   \<and> set (member_roles (snd (restore_roles sample_cfg
           (preserve_roles sample_db sample_guild sample_member 500) sample_guild Added
           stripped_member))) = {1, 10, 20, 30}
   \<and> verification_data (fst (restore_roles sample_cfg
           (preserve_roles sample_db sample_guild sample_member 500) sample_guild Added
           stripped_member)) (member_id sample_member)
       = Some (sample_profile\<lparr>preserved_roles := None\<rparr>)"
proof -
  have prof: "verification_data sample_db (member_id sample_member) = Some sample_profile"
    by (simp add: sample_db_def empty_db_def sample_member_def)
  have who: "member_id stripped_member = member_id sample_member"
    by (simp add: stripped_member_def sample_member_def)
  have snap: "filter (\<lambda>r. r \<noteq> default_role_id sample_guild) (member_roles sample_member)
                = [10, 20, 30]"
    by (simp add: sample_guild_def sample_member_def)
  have some: "existing_roles sample_guild
                (filter (\<lambda>r. r \<noteq> default_role_id sample_guild) (member_roles sample_member)) \<noteq> []"
    by (simp only: snap) (simp add: existing_roles_def get_role_def sample_guild_def)
  note T = snapshot_restore_roundtrip [OF prof who some, where cfg = sample_cfg and now = 500
      and outcome = Added]
  from T have a: "set (member_roles (snd (restore_roles sample_cfg
           (preserve_roles sample_db sample_guild sample_member 500) sample_guild Added
           stripped_member))) =
         set (member_roles stripped_member)
           \<union> (set (filter (\<lambda>r. r \<noteq> default_role_id sample_guild) (member_roles sample_member))
                \<inter> set (guild_role_ids sample_guild))"
    by blast
  have b: "set (member_roles stripped_member)
           \<union> (set (filter (\<lambda>r. r \<noteq> default_role_id sample_guild) (member_roles sample_member))
                \<inter> set (guild_role_ids sample_guild)) = {1, 10, 20, 30}"
    by (simp only: snap) (auto simp: stripped_member_def sample_guild_def)
  from T have c: "verification_data (fst (restore_roles sample_cfg
           (preserve_roles sample_db sample_guild sample_member 500) sample_guild Added
           stripped_member)) (member_id sample_member)
       = Some (sample_profile\<lparr>preserved_roles := None\<rparr>)"
    by blast
  from prof who some a b c show ?thesis by simp
qed

section \<open>Properties of the CAS service\<close>

subsection \<open>The sample store after one token was issued\<close>

lemma str_int_7: "str_int 7 = ''7''"
  by code_simp

lemma issued_db_eq:
  "issued_db = \<lparr>users = Map.empty, verification_data = Map.empty,
     verification_states = [\<lparr>state = ''#tok:7:0123456789abcdef0123456789abcdef'', vs_discord_id = 7,
        guild_id = 9, is_initial = True, expires_at = 1900, ip_address = None, user_agent = None\<rparr>],
     audit_trail = []\<rparr>"
  by (simp add: issued_db_def generate_verification_url_def empty_db_def sample_cfg_def
      sample_runtime_def state_hash_def str_int_7)

lemma issued_db_unexpired:
  "unexpired_states issued_db 1100 = verification_states issued_db"
  by (simp add: issued_db_eq unexpired_states_def)

lemma issued_db_match:
  "find_matching_state sample_runtime sample_cfg ''tok'' (verification_states issued_db) =
     Some \<lparr>state = ''#tok:7:0123456789abcdef0123456789abcdef'', vs_discord_id = 7,
        guild_id = 9, is_initial = True, expires_at = 1900, ip_address = None, user_agent = None\<rparr>"
  by (simp add: issued_db_eq state_hash_def sample_cfg_def sample_runtime_def str_int_7)

lemma issued_db_consumed:
  "delete_state issued_db \<lparr>state = ''#tok:7:0123456789abcdef0123456789abcdef'', vs_discord_id = 7,
        guild_id = 9, is_initial = True, expires_at = 1900, ip_address = None, user_agent = None\<rparr>
     = empty_db"
  by (simp add: issued_db_eq delete_state_def empty_db_def)

subsection \<open>Ticket validation\<close>

lemma validate_run_transport:
  "provider (validate_url rt cfg ticket st) = TransportError e \<Longrightarrow>
   validate_cas_ticket_run rt cfg provider ticket st =
     (None, [''CAS ticket validation error: '' @ e])"
  by (simp add: validate_cas_ticket_run_def validate_body_def)

lemma validate_run_unparseable:
  "provider (validate_url rt cfg ticket st) = Unparseable e \<Longrightarrow>
   validate_cas_ticket_run rt cfg provider ticket st =
     (None, [''Failed to parse CAS XML response: '' @ e])"
  by (simp add: validate_cas_ticket_run_def validate_body_def)

lemma validate_run_no_success:
  "provider (validate_url rt cfg ticket st) = Document doc_root \<Longrightarrow>
   find_child (cas_tag ''authenticationSuccess'') doc_root = None \<Longrightarrow>
   validate_cas_ticket_run rt cfg provider ticket st =
     (None, [''CAS validation failed: '' @ get_or (failure_code doc_root) ''None''
               @ '' - '' @ failure_message doc_root])"
  by (simp add: validate_cas_ticket_run_def validate_body_def)

lemma validate_run_success:
  "provider (validate_url rt cfg ticket st) = Document doc_root \<Longrightarrow>
   find_child (cas_tag ''authenticationSuccess'') doc_root = Some success \<Longrightarrow>
   validate_cas_ticket_run rt cfg provider ticket st = (Some (user_info success), [])"
  by (simp add: validate_cas_ticket_run_def validate_body_def)

lemma validate_cas_ticket_None_iff:
  "validate_cas_ticket rt cfg provider ticket st = None \<longleftrightarrow>
     \<not> (\<exists>doc_root success. provider (validate_url rt cfg ticket st) = Document doc_root
           \<and> find_child (cas_tag ''authenticationSuccess'') doc_root = Some success)"
proof (cases "provider (validate_url rt cfg ticket st)")
  case (TransportError e)
  then show ?thesis
    by (simp add: validate_cas_ticket_def validate_run_transport)
next
  case (Unparseable e)
  then show ?thesis
    by (simp add: validate_cas_ticket_def validate_run_unparseable)
next
  case (Document doc_root)
  show ?thesis
  proof (cases "find_child (cas_tag ''authenticationSuccess'') doc_root")
    case None
    with Document show ?thesis
      by (simp add: validate_cas_ticket_def validate_run_no_success)
  next
    case (Some success)
    with Document show ?thesis
      by (simp add: validate_cas_ticket_def validate_run_success)
  qed
qed

lemma failure_document_children:
  "find_child (cas_tag ''authenticationSuccess'') (failure_document code msg) = None"
  "find_child (cas_tag ''authenticationFailure'') (failure_document code msg) =
     Some (Element (cas_tag ''authenticationFailure'') [(''code'', code)] (Some msg) [])"
  by (simp_all add: failure_document_def find_child_def cas_tag_def)

text \<open>
  C3, as the claim states it, fails: the value \<open>validate_cas_ticket\<close> returns on a
  failure is \<open>None\<close>, which carries neither a code nor a message.  The provider answers
  \<open>INVALID_TICKET\<close> in one run and \<open>INVALID_SERVICE\<close> in another, and sends a body
  that is not XML in a third; the three results are the same \<open>None\<close>.
\<close>

theorem validate_cas_ticket_counterexample:
  "validate_cas_ticket sample_runtime sample_cfg
     (\<lambda>url. Document (failure_document ''INVALID_TICKET'' ''Ticket not recognized''))
     ''ST-12345'' ''tok'' = None
   \<and> validate_cas_ticket sample_runtime sample_cfg
     (\<lambda>url. Document (failure_document ''INVALID_SERVICE'' ''Service mismatch''))
     ''ST-12345'' ''tok'' = None
   \<and> validate_cas_ticket sample_runtime sample_cfg (\<lambda>url. Unparseable ''syntax error'')
     ''ST-12345'' ''tok'' = None"
  by (simp add: validate_cas_ticket_def validate_run_no_success validate_run_unparseable
      failure_document_children)

text \<open>
  C3, amended.  \<open>validate_cas_ticket\<close> never raises: an exception of the HTTP client
  and a parse error are caught, and each makes the result \<open>None\<close>.  On a document
  with no \<open>authenticationSuccess\<close> element the result is \<open>None\<close> as well.  The
  failure code and the message are written to the error log only: the code is the
  \<open>code\<close> attribute of the \<open>authenticationFailure\<close> element, \<open>UNKNOWN\<close> when that
  element is absent, and the message is its stripped text.  The result is \<open>None\<close>
  exactly when the provider did not send a document with an \<open>authenticationSuccess\<close>
  element, so the caller tells success from failure by the result alone.
\<close>

theorem validate_cas_ticket_failure:
  "(\<forall>e. provider (validate_url rt cfg ticket st) = TransportError e \<longrightarrow>
        validate_body rt cfg provider ticket st = Inl (OtherException e)
        \<and> validate_cas_ticket rt cfg provider ticket st = None
        \<and> validate_cas_ticket_errors rt cfg provider ticket st =
             [''CAS ticket validation error: '' @ e])
   \<and> (\<forall>e. provider (validate_url rt cfg ticket st) = Unparseable e \<longrightarrow>
        validate_body rt cfg provider ticket st = Inl (ParseError e)
        \<and> validate_cas_ticket rt cfg provider ticket st = None
        \<and> validate_cas_ticket_errors rt cfg provider ticket st =
             [''Failed to parse CAS XML response: '' @ e])
   \<and> (\<forall>doc_root. provider (validate_url rt cfg ticket st) = Document doc_root
          \<and> find_child (cas_tag ''authenticationSuccess'') doc_root = None \<longrightarrow>
        validate_cas_ticket rt cfg provider ticket st = None
        \<and> validate_cas_ticket_errors rt cfg provider ticket st =
             [''CAS validation failed: '' @ get_or (failure_code doc_root) ''None''
                @ '' - '' @ failure_message doc_root]
        \<and> (\<forall>failure. find_child (cas_tag ''authenticationFailure'') doc_root = Some failure \<longrightarrow>
              failure_code doc_root = map_of (xml_attrib failure) ''code''
              \<and> failure_message doc_root = strip (get_or (xml_text failure) []))
        \<and> (find_child (cas_tag ''authenticationFailure'') doc_root = None \<longrightarrow>
              failure_code doc_root = Some ''UNKNOWN''
              \<and> failure_message doc_root = ''CAS authentication failed''))
   \<and> (validate_cas_ticket rt cfg provider ticket st = None \<longleftrightarrow>
        \<not> (\<exists>doc_root success. provider (validate_url rt cfg ticket st) = Document doc_root
              \<and> find_child (cas_tag ''authenticationSuccess'') doc_root = Some success))"
proof (intro conjI allI impI; (elim conjE)?)
  fix e assume "provider (validate_url rt cfg ticket st) = TransportError e"
  then show "validate_body rt cfg provider ticket st = Inl (OtherException e)"
    and "validate_cas_ticket rt cfg provider ticket st = None"
    and "validate_cas_ticket_errors rt cfg provider ticket st =
           [''CAS ticket validation error: '' @ e]"
    by (simp_all add: validate_body_def validate_cas_ticket_def validate_cas_ticket_errors_def
        validate_run_transport)
next
  fix e assume "provider (validate_url rt cfg ticket st) = Unparseable e"
  then show "validate_body rt cfg provider ticket st = Inl (ParseError e)"
    and "validate_cas_ticket rt cfg provider ticket st = None"
    and "validate_cas_ticket_errors rt cfg provider ticket st =
           [''Failed to parse CAS XML response: '' @ e]"
    by (simp_all add: validate_body_def validate_cas_ticket_def validate_cas_ticket_errors_def
        validate_run_unparseable)
next
  fix doc_root
  assume "provider (validate_url rt cfg ticket st) = Document doc_root"
     and "find_child (cas_tag ''authenticationSuccess'') doc_root = None"
  then show "validate_cas_ticket rt cfg provider ticket st = None"
    and "validate_cas_ticket_errors rt cfg provider ticket st =
           [''CAS validation failed: '' @ get_or (failure_code doc_root) ''None''
              @ '' - '' @ failure_message doc_root]"
    by (simp_all add: validate_cas_ticket_def validate_cas_ticket_errors_def
        validate_run_no_success)
next
  fix doc_root failure
  assume "find_child (cas_tag ''authenticationFailure'') doc_root = Some failure"
  then show "failure_code doc_root = map_of (xml_attrib failure) ''code''"
    and "failure_message doc_root = strip (get_or (xml_text failure) [])"
    by (simp_all add: failure_code_def failure_message_def)
next
  fix doc_root
  assume "find_child (cas_tag ''authenticationFailure'') doc_root = None"
  then show "failure_code doc_root = Some ''UNKNOWN''"
    and "failure_message doc_root = ''CAS authentication failed''"
    by (simp_all add: failure_code_def failure_message_def)
next
  show "validate_cas_ticket rt cfg provider ticket st = None \<longleftrightarrow>
        \<not> (\<exists>doc_root success. provider (validate_url rt cfg ticket st) = Document doc_root
              \<and> find_child (cas_tag ''authenticationSuccess'') doc_root = Some success)"
    by (rule validate_cas_ticket_None_iff)
qed

theorem validate_cas_ticket_failure_witness:
  "find_child (cas_tag ''authenticationSuccess'')
     (failure_document ''INVALID_TICKET'' ''  Ticket not recognized  '') = None
   \<and> validate_cas_ticket sample_runtime sample_cfg
        (\<lambda>url. Document (failure_document ''INVALID_TICKET'' ''  Ticket not recognized  ''))
        ''ST-12345'' ''tok'' = None
   \<and> validate_cas_ticket_errors sample_runtime sample_cfg
        (\<lambda>url. Document (failure_document ''INVALID_TICKET'' ''  Ticket not recognized  ''))
        ''ST-12345'' ''tok''
       = [''CAS validation failed: INVALID_TICKET - Ticket not recognized'']
   \<and> validate_cas_ticket sample_runtime sample_cfg (\<lambda>url. TransportError ''timeout'')
        ''ST-12345'' ''tok'' = None"
proof -
  let ?doc = "failure_document ''INVALID_TICKET'' ''  Ticket not recognized  ''"
  let ?p = "\<lambda>url :: string. Document ?doc"
  let ?q = "\<lambda>url :: string. TransportError ''timeout''"
  have a: "find_child (cas_tag ''authenticationSuccess'') ?doc = None"
    by (rule failure_document_children)
  have b: "?p (validate_url sample_runtime sample_cfg ''ST-12345'' ''tok'') = Document ?doc"
    by simp
  have c: "?q (validate_url sample_runtime sample_cfg ''ST-12345'' ''tok'') = TransportError ''timeout''"
    by simp
  note T = validate_cas_ticket_failure [of ?p sample_runtime sample_cfg "''ST-12345''" "''tok''"]
  from T a b have d: "validate_cas_ticket sample_runtime sample_cfg ?p ''ST-12345'' ''tok'' = None"
    by blast
  from T a b have e: "validate_cas_ticket_errors sample_runtime sample_cfg ?p ''ST-12345'' ''tok'' =
      [''CAS validation failed: '' @ get_or (failure_code ?doc) ''None''
         @ '' - '' @ failure_message ?doc]"
    by blast
  have f: "get_or (failure_code ?doc) ''None'' = ''INVALID_TICKET''"
    by (simp add: failure_code_def failure_document_children get_or_def)
  have g: "failure_message ?doc = ''Ticket not recognized''"
    by (simp add: failure_message_def failure_document_children get_or_def strip_def is_space_def)
  from validate_cas_ticket_failure [of ?q sample_runtime sample_cfg "''ST-12345''" "''tok''"] c
  have h: "validate_cas_ticket sample_runtime sample_cfg ?q ''ST-12345'' ''tok'' = None"
    by blast
  show ?thesis using a d h by (simp add: e f g)
qed

subsection \<open>The state token\<close>

lemma find_matching_state_None:
  "find_matching_state rt cfg st S = None \<longleftrightarrow> (\<forall>v \<in> set S. \<not> state_matches rt cfg st v)"
  by (induction S) (auto simp: state_matches_def)

lemma find_matching_state_Some:
  "find_matching_state rt cfg st S = Some vs \<Longrightarrow> vs \<in> set S \<and> state_matches rt cfg st vs"
  by (induction S) (auto simp: state_matches_def split: if_splits)

lemma states_log_verification_audit:
  "verification_states (log_verification_audit rt db d cd h t r e) = verification_states db"
  by (simp add: log_verification_audit_def)

lemma callback_failed_not_success: "\<not> is_success (fst (callback_failed rt ok db t st e))"
  by (simp add: callback_failed_def)

lemma unexpired_subset: "set (unexpired_states db now) \<subseteq> set (verification_states db)"
  by (auto simp: unexpired_states_def)

lemma generate_verification_url_state:
  "verification_states (snd (generate_verification_url rt cfg now db d g rv ip ua st)) =
     verification_states db @
       [\<lparr>state = state_hash rt cfg st d, vs_discord_id = d, guild_id = g, is_initial = (\<not> rv),
         expires_at = now + 60 * verification_state_expiry_minutes cfg,
         ip_address = ip, user_agent = ua\<rparr>]"
  by (simp add: generate_verification_url_def Let_def)

lemma handle_callback_no_match:
  assumes "\<forall>v \<in> set (unexpired_states db now). \<not> state_matches rt cfg st v"
      and "\<forall>e. fault \<noteq> QueryFault e"
  shows "handle_callback rt cfg provider fault ok now db ticket st =
           (CallbackFailure invalid_or_expired, db)"
proof -
  have "find_matching_state rt cfg st (unexpired_states db now) = None"
    using assms(1) by (simp add: find_matching_state_None)
  then show ?thesis using assms(2)
    by (cases fault) (simp_all add: handle_callback_def)
qed

lemma handle_callback_no_match_not_success:
  assumes "\<forall>v \<in> set (unexpired_states db now). \<not> state_matches rt cfg st v"
  shows "\<not> is_success (fst (handle_callback rt cfg provider fault ok now db ticket st))"
proof -
  have "find_matching_state rt cfg st (unexpired_states db now) = None"
    using assms(1) by (simp add: find_matching_state_None)
  then show ?thesis
    by (cases fault) (simp_all add: handle_callback_def callback_failed_not_success)
qed

lemma handle_callback_consumed:
  assumes first: "handle_callback rt cfg provider fault ok now db ticket st = (r1, db1)"
      and past: "is_success r1 \<or> (fault = NoFault \<and> r1 \<noteq> CallbackFailure invalid_or_expired)"
  shows "\<exists>vs \<in> set (unexpired_states db now). state_matches rt cfg st vs
           \<and> verification_states db1 = filter (\<lambda>v. state v \<noteq> state vs) (verification_states db)"
proof (cases "find_matching_state rt cfg st (unexpired_states db now)")
  case None
  then show ?thesis using first past
    by (cases fault) (auto simp: handle_callback_def callback_failed_def)
next
  case (Some vs)
  from find_matching_state_Some [OF Some]
  have vs: "vs \<in> set (unexpired_states db now)" "state_matches rt cfg st vs" by simp_all
  have "verification_states db1 = filter (\<lambda>v. state v \<noteq> state vs) (verification_states db)"
    using first past Some
    by (cases fault; cases "validate_cas_ticket rt cfg provider ticket st")
       (auto simp: handle_callback_def callback_failed_def delete_state_def
          states_log_verification_audit Let_def)
  with vs show ?thesis by blast
qed

text \<open>
  C4.  Let the raw token answer to at most one key of the store (it was issued once).
  When a callback with that token gets past the state check (it succeeds, or, with the
  store working, it fails on the ticket only), the state row is gone from the store it
  leaves behind, whatever the ticket validation gave.  Every later callback with the same
  token fails: none succeeds, and whenever the store answers the query, the result is the
  \<open>Invalid or expired verification state\<close> failure and the store is not touched.
\<close>

theorem token_single_use:
  assumes single: "\<forall>v \<in> set (verification_states db). \<forall>w \<in> set (verification_states db).
                     state_matches rt cfg st v \<and> state_matches rt cfg st w \<longrightarrow> state v = state w"
      and first: "handle_callback rt cfg provider fault ok now db ticket st = (r1, db1)"
      and past: "is_success r1 \<or> (fault = NoFault \<and> r1 \<noteq> CallbackFailure invalid_or_expired)"
  shows "(\<forall>v \<in> set (verification_states db1). \<not> state_matches rt cfg st v)
       \<and> \<not> is_success (fst (handle_callback rt cfg provider' fault' ok' now' db1 ticket' st))
       \<and> ((\<forall>e. fault' \<noteq> QueryFault e) \<longrightarrow>
            handle_callback rt cfg provider' fault' ok' now' db1 ticket' st =
              (CallbackFailure invalid_or_expired, db1))"
proof -
  from handle_callback_consumed [OF first past]
  obtain vs where vs: "vs \<in> set (unexpired_states db now)" "state_matches rt cfg st vs"
    and db1: "verification_states db1 = filter (\<lambda>v. state v \<noteq> state vs) (verification_states db)"
    by blast
  have vs_in: "vs \<in> set (verification_states db)"
    using vs(1) unexpired_subset by blast
  have gone: "\<forall>v \<in> set (verification_states db1). \<not> state_matches rt cfg st v"
  proof
    fix v assume "v \<in> set (verification_states db1)"
    then have v: "v \<in> set (verification_states db)" "state v \<noteq> state vs"
      by (simp_all add: db1)
    show "\<not> state_matches rt cfg st v"
    proof
      assume "state_matches rt cfg st v"
      with single v(1) vs_in vs(2) have "state v = state vs" by blast
      with v(2) show False by simp
    qed
  qed
  then have none: "\<forall>v \<in> set (unexpired_states db1 now'). \<not> state_matches rt cfg st v"
    using unexpired_subset by blast
  from gone handle_callback_no_match_not_success [OF none]
    handle_callback_no_match [OF none]
  show ?thesis by blast
qed

theorem token_single_use_witness:
  "is_success (fst (handle_callback sample_runtime sample_cfg (\<lambda>url. Document success_document)
        NoFault True 1100 issued_db ''ST-12345'' ''tok''))
   \<and> handle_callback sample_runtime sample_cfg (\<lambda>url. Document success_document) NoFault True 1200
        (snd (handle_callback sample_runtime sample_cfg (\<lambda>url. Document success_document)
           NoFault True 1100 issued_db ''ST-12345'' ''tok'')) ''ST-12345'' ''tok''
       = (CallbackFailure invalid_or_expired,
          snd (handle_callback sample_runtime sample_cfg (\<lambda>url. Document success_document)
            NoFault True 1100 issued_db ''ST-12345'' ''tok''))"
proof -
  let ?p = "\<lambda>url :: string. Document success_document"
  let ?first = "handle_callback sample_runtime sample_cfg ?p NoFault True 1100 issued_db
                  ''ST-12345'' ''tok''"
  have single: "\<forall>v \<in> set (verification_states issued_db).
      \<forall>w \<in> set (verification_states issued_db).
        state_matches sample_runtime sample_cfg ''tok'' v
        \<and> state_matches sample_runtime sample_cfg ''tok'' w \<longrightarrow> state v = state w"
    by (simp add: issued_db_eq)
  have first: "?first = (fst ?first, snd ?first)"
    by simp
  have valid: "validate_cas_ticket sample_runtime sample_cfg ?p ''ST-12345'' ''tok'' \<noteq> None"
    by (simp add: validate_cas_ticket_None_iff success_document_def find_child_def cas_tag_def)
  have succ: "is_success (fst ?first)"
    using valid
    by (auto simp: handle_callback_def issued_db_unexpired issued_db_match Let_def)
  then have past: "is_success (fst ?first)
      \<or> (NoFault = NoFault \<and> fst ?first \<noteq> CallbackFailure invalid_or_expired)"
    by blast
  have nofault: "\<forall>e. NoFault \<noteq> QueryFault e"
    by simp
  from token_single_use [OF single first past, where provider' = ?p and fault' = NoFault
      and ok' = True and now' = 1200 and ticket' = "''ST-12345''"] nofault
  have "handle_callback sample_runtime sample_cfg ?p NoFault True 1200 (snd ?first)
          ''ST-12345'' ''tok'' = (CallbackFailure invalid_or_expired, snd ?first)"
    by blast
  with succ show ?thesis by blast
qed

text \<open>
  C5.  When every row the raw token answers to has its expiry at or before the time of
  the callback (the token has expired, redeemed before or not), or no row answers to it
  (the token is unknown), and the store answers the query, the callback fails with the
  one \<open>Invalid or expired verification state\<close> failure and leaves the store as it was.
\<close>

theorem expired_or_unknown_token_rejected:
  assumes "\<forall>v \<in> set (verification_states db). state_matches rt cfg st v \<longrightarrow> expires_at v \<le> now"
      and "\<forall>e. fault \<noteq> QueryFault e"
  shows "handle_callback rt cfg provider fault ok now db ticket st =
           (CallbackFailure invalid_or_expired, db)"
proof (rule handle_callback_no_match)
  show "\<forall>v \<in> set (unexpired_states db now). \<not> state_matches rt cfg st v"
    using assms(1) by (auto simp: unexpired_states_def)
qed (rule assms(2))

theorem expired_or_unknown_token_rejected_witness:
  "handle_callback sample_runtime sample_cfg (\<lambda>url. Document success_document) NoFault True 1900
        issued_db ''ST-12345'' ''tok'' = (CallbackFailure invalid_or_expired, issued_db)
   \<and> handle_callback sample_runtime sample_cfg (\<lambda>url. Document success_document) NoFault True 1100
        issued_db ''ST-12345'' ''other'' = (CallbackFailure invalid_or_expired, issued_db)"
proof -
  have a: "\<forall>v \<in> set (verification_states issued_db).
      state_matches sample_runtime sample_cfg ''tok'' v \<longrightarrow> expires_at v \<le> 1900"
    by (simp add: issued_db_eq)
  have b: "\<forall>v \<in> set (verification_states issued_db).
      \<not> state_matches sample_runtime sample_cfg ''other'' v"
    by (simp add: issued_db_eq state_matches_def state_hash_def sample_runtime_def)
  then have b': "\<forall>v \<in> set (verification_states issued_db).
      state_matches sample_runtime sample_cfg ''other'' v \<longrightarrow> expires_at v \<le> 1100"
    by blast
  have c: "\<forall>e. NoFault \<noteq> QueryFault e"
    by simp
  from expired_or_unknown_token_rejected [OF a c, of "\<lambda>url. Document success_document" True "''ST-12345''"]
    expired_or_unknown_token_rejected [OF b' c, of "\<lambda>url. Document success_document" True "''ST-12345''"]
  show ?thesis by blast
qed

subsection \<open>The audit trail\<close>

lemma handle_callback_profiles_untouched:
  "verification_data (snd (handle_callback rt cfg provider fault ok now db ticket st))
     = verification_data db
   \<and> users (snd (handle_callback rt cfg provider fault ok now db ticket st)) = users db"
  by (cases fault; cases "find_matching_state rt cfg st (unexpired_states db now)";
      cases "validate_cas_ticket rt cfg provider ticket st")
     (simp_all add: handle_callback_def callback_failed_def log_verification_audit_def
        delete_state_def Let_def)

lemma handle_callback_failure_without_exception:
  "\<not> is_success (fst (handle_callback rt cfg provider NoFault ok now db ticket st)) \<Longrightarrow>
   audit_trail (snd (handle_callback rt cfg provider NoFault ok now db ticket st)) = audit_trail db"
  by (cases "find_matching_state rt cfg st (unexpired_states db now)";
      cases "validate_cas_ticket rt cfg provider ticket st")
     (simp_all add: handle_callback_def delete_state_def Let_def)

lemma handle_callback_success_audit:
  "handle_callback rt cfg provider fault ok now db ticket st = (CallbackSuccess d g cd rv, db') \<Longrightarrow>
   \<exists>h. audit_trail db' = audit_trail db @
     [\<lparr>audit_discord_id = Some d, audit_login = get_or (login cd) ''unknown'',
       cas_username = get_or (uid cd) ''unknown'', state_sha256 = Some h,
       ticket_sha256 = Some (sha256_hex rt ticket), result = ''success'', error_message = None\<rparr>]"
  by (cases fault; cases "find_matching_state rt cfg st (unexpired_states db now)";
      cases "validate_cas_ticket rt cfg provider ticket st")
     (auto simp: handle_callback_def callback_failed_def log_verification_audit_def
        delete_state_def Let_def)

text \<open>
  C1 does not hold of \<open>handle_callback\<close>.  The token was issued and is valid, the store
  raises nothing, the failure audit would go through.  When the provider answers
  \<open>authenticationFailure\<close> with code \<open>INVALID_TICKET\<close>, when it cannot be reached, and
  when its body is not XML, the callback returns the failure
  \<open>Failed to validate CAS ticket\<close> with the token consumed and the audit trail still
  empty; a callback with an unknown token returns its failure with the audit trail empty
  too.  No profile is created or changed in any of the four runs.
\<close>

theorem handle_callback_rejected_ticket_no_audit:
  "handle_callback sample_runtime sample_cfg
     (\<lambda>url. Document (failure_document ''INVALID_TICKET'' ''Ticket not recognized''))
     NoFault True 1100 issued_db ''ST-12345'' ''tok''
     = (CallbackFailure ''Failed to validate CAS ticket'', empty_db)
   \<and> handle_callback sample_runtime sample_cfg (\<lambda>url. TransportError ''timeout'')
     NoFault True 1100 issued_db ''ST-12345'' ''tok''
     = (CallbackFailure ''Failed to validate CAS ticket'', empty_db)
   \<and> handle_callback sample_runtime sample_cfg (\<lambda>url. Unparseable ''syntax error'')
     NoFault True 1100 issued_db ''ST-12345'' ''tok''
     = (CallbackFailure ''Failed to validate CAS ticket'', empty_db)
   \<and> handle_callback sample_runtime sample_cfg (\<lambda>url. Document success_document)
     NoFault True 1100 issued_db ''ST-12345'' ''other''
     = (CallbackFailure invalid_or_expired, issued_db)
   \<and> audit_trail issued_db = []
   \<and> audit_trail empty_db = []
   \<and> verification_data empty_db = verification_data issued_db
   \<and> users empty_db = users issued_db"
proof -
  have a: "validate_cas_ticket sample_runtime sample_cfg
             (\<lambda>url. Document (failure_document ''INVALID_TICKET'' ''Ticket not recognized''))
             ''ST-12345'' ''tok'' = None"
    by (simp add: validate_cas_ticket_def validate_run_no_success failure_document_children)
  have b: "validate_cas_ticket sample_runtime sample_cfg (\<lambda>url. TransportError ''timeout'')
             ''ST-12345'' ''tok'' = None"
    by (simp add: validate_cas_ticket_def validate_run_transport)
  have c: "validate_cas_ticket sample_runtime sample_cfg (\<lambda>url. Unparseable ''syntax error'')
             ''ST-12345'' ''tok'' = None"
    by (simp add: validate_cas_ticket_def validate_run_unparseable)
  have d: "find_matching_state sample_runtime sample_cfg ''other'' (verification_states issued_db)
             = None"
    by (simp add: issued_db_eq state_hash_def sample_runtime_def)
  show ?thesis
    by (simp add: handle_callback_def issued_db_unexpired issued_db_match issued_db_consumed
        a b c d Let_def)
       (simp add: issued_db_eq empty_db_def)
qed

end
